theory Spec2Isabelle
  imports Complex_Main
begin

section \<open>Sleep Age Simulator: the hypnogram engine of app.js\<close>

text \<open>
  The engine computes with JavaScript numbers, that is with IEEE doubles. The code is
  modelled twice. In the first model a number is an exact real: its statements are about
  the arithmetic the code writes down, without rounding. In the second model, whose names
  end in \<open>_d\<close>, every operation rounds its result to the nearest double; it is used where
  the rounding decides a statement (the contiguity of the returned blocks, and the runs in
  which an iteration of the loop makes no progress). The ambient random source
  \<^verbatim>\<open>Math.random()\<close> is an explicit argument \<open>rnd\<close>, the sequence of its successive
  results. A configuration carries all its fields (the defaults of the destructuring in
  line 120 stand for absent fields only), and the strings \<^verbatim>\<open>gender\<close>,
  \<^verbatim>\<open>caffeineMetabolism\<close> and \<^verbatim>\<open>chronotype\<close> are compared with literals as the source
  does.
\<close>

subsection \<open>Data model\<close>

datatype stage = WAKE | REM | N1 | N2 | N3

record block =
  stage :: stage
  duration :: real
  start :: real

record wake_event =
  time :: real
  ev_duration :: real

record profile =
  tst :: real
  n3P :: real
  remP :: real
  n1P :: real
  n2P :: real
  wasoMins :: real

record config =
  age :: real
  gender :: string
  alcohol :: real
  caffeine :: real
  caffeineTime :: real
  caffeineMetabolism :: string
  sdbSeverity :: real
  nocturia :: real
  chronotype :: string
  socialJetLag :: bool
  blueLight :: bool
  isMenopausal :: bool

subsection \<open>ScientificConstants.getAgeProfile\<close>

text \<open>
  The helper \<^verbatim>\<open>interpolate\<close>: flat below the first and above the last keyframe, linear
  between two neighbours. The \<^verbatim>\<open>for\<close> loop scans the consecutive pairs in order; its
  fall-through returns the last value. Every table passed to it is a non-empty literal.
\<close>

fun interpolate_scan :: "real \<Rightarrow> (real \<times> real) list \<Rightarrow> real \<Rightarrow> real" where
  "interpolate_scan val ((a1, v1) # (a2, v2) # ks) dflt =
     (if val \<ge> a1 \<and> val \<le> a2 then v1 + ((val - a1) / (a2 - a1)) * (v2 - v1)
      else interpolate_scan val ((a2, v2) # ks) dflt)"
| "interpolate_scan val ks dflt = dflt"

definition interpolate :: "real \<Rightarrow> (real \<times> real) list \<Rightarrow> real" where
  "interpolate val keyframes =
     (if val \<le> fst (hd keyframes) then snd (hd keyframes)
      else if val \<ge> fst (last keyframes) then snd (last keyframes)
      else interpolate_scan val keyframes (snd (last keyframes)))"

definition tstKeyframes :: "(real \<times> real) list" where
  "tstKeyframes = [(0, 960), (5, 690), (12, 570), (18, 480), (40, 432), (60, 360), (80, 312), (90, 300)]"

definition n3Keyframes :: "(real \<times> real) list" where
  "n3Keyframes = [(0, 0.25), (10, 0.25), (18, 0.22), (40, 0.18), (60, 0.15), (80, 0.12), (100, 0.10)]"

definition remKeyframes :: "(real \<times> real) list" where
  "remKeyframes = [(0, 0.50), (3, 0.30), (5, 0.25), (60, 0.23), (80, 0.20), (100, 0.18)]"

definition wasoKeyframes :: "(real \<times> real) list" where
  "wasoKeyframes = [(0, 5), (30, 20), (50, 45), (70, 80), (80, 120), (90, 150)]"

definition n1Keyframes :: "(real \<times> real) list" where
  "n1Keyframes = [(0, 0.05), (50, 0.05), (80, 0.10), (100, 0.12)]"

text \<open>
  Lines 102 to 112: N2 is the remainder; when the remainder is negative the three other
  fractions are rescaled to sum to 0.95 and N2 is set to 0.05. The result is
  \<open>(n3P, remP, n1P, n2P)\<close>.
\<close>

definition safety_normalization :: "real \<Rightarrow> real \<Rightarrow> real \<Rightarrow> real \<times> real \<times> real \<times> real" where
  "safety_normalization n3 rem n1 =
     (let n2 = 1.0 - (n3 + rem + n1) in
      if n2 < 0 then
        (let sum = n3 + rem + n1 in (n3 / sum * 0.95, rem / sum * 0.95, n1 / sum * 0.95, 0.05))
      else (n3, rem, n1, n2))"

definition getAgeProfile :: "real \<Rightarrow> profile" where
  "getAgeProfile a =
     (case safety_normalization (interpolate a n3Keyframes) (interpolate a remKeyframes)
             (interpolate a n1Keyframes) of
        (n3, rem, n1, n2) \<Rightarrow>
          \<lparr>tst = interpolate a tstKeyframes, n3P = n3, remP = rem, n1P = n1, n2P = n2,
           wasoMins = interpolate a wasoKeyframes\<rparr>)"

subsection \<open>HypnogramGenerator.generate: the modifier pipeline\<close>

text \<open>
  The source mutates the local variables \<^verbatim>\<open>tst, n3P, remP, n1P, n2P, wasoMins\<close> in a
  fixed order. Each \<^verbatim>\<open>if\<close> block of lines 133 to 222 is one function on the record of
  these six variables; \<open>adjusted\<close> composes them in the source's order and ends with the
  recalculation of N2 (lines 224 to 231).
\<close>

definition halfLife :: "config \<Rightarrow> real" where
  "halfLife c =
     (let h = (if caffeineMetabolism c = ''fast'' then 4 else 6)
      in if caffeineMetabolism c = ''slow'' then 8 else h)"

definition activeCaffeine :: "config \<Rightarrow> real" where
  "activeCaffeine c = caffeine c * (0.5 powr (caffeineTime c / halfLife c))"

definition blueLightLatency :: "config \<Rightarrow> real" where
  "blueLightLatency c = (if blueLight c then 45 else 0)"

definition mod_blueLight :: "config \<Rightarrow> profile \<Rightarrow> profile" where
  "mod_blueLight c p =
     (if blueLight c
      then p\<lparr>tst := tst p - 30, n3P := n3P p * 0.85, remP := remP p * 0.9, n1P := n1P p + 0.03\<rparr>
      else p)"

definition mod_caffeine :: "config \<Rightarrow> profile \<Rightarrow> profile" where
  "mod_caffeine c p =
     (if activeCaffeine c > 0.1
      then p\<lparr>n3P := n3P p * max 0.5 (1 - (activeCaffeine c * 0.15)),
             n1P := n1P p + activeCaffeine c * 0.03,
             tst := tst p - activeCaffeine c * 15,
             wasoMins := wasoMins p + activeCaffeine c * 15\<rparr>
      else p)"

definition mod_alcohol :: "config \<Rightarrow> profile \<Rightarrow> profile" where
  "mod_alcohol c p =
     (if alcohol c > 0
      then p\<lparr>n3P := n3P p * max 0.6 (1 - (alcohol c * 0.1)),
             remP := remP p * max 0.4 (1 - (alcohol c * 0.15)),
             wasoMins := wasoMins p + alcohol c * 25\<rparr>
      else p)"

definition bedtimeShift :: "config \<Rightarrow> real" where
  "bedtimeShift c = (if socialJetLag c then 180 else 0)"

definition mod_socialJetLag :: "config \<Rightarrow> profile \<Rightarrow> profile" where
  "mod_socialJetLag c p =
     (if socialJetLag c
      then p\<lparr>tst := tst p - 60, n3P := n3P p * 0.85, remP := remP p * 0.8,
             wasoMins := wasoMins p + 30\<rparr>
      else p)"

definition mod_gender :: "config \<Rightarrow> profile \<Rightarrow> profile" where
  "mod_gender c p =
     (if gender c = ''male'' \<and> age c > 30 then p\<lparr>wasoMins := wasoMins p * 1.1\<rparr> else p)"

definition mod_menopause :: "config \<Rightarrow> profile \<Rightarrow> profile" where
  "mod_menopause c p =
     (if isMenopausal c
      then p\<lparr>wasoMins := wasoMins p + 45, n3P := n3P p * 0.80, remP := remP p * 0.9,
             n1P := n1P p + 0.05\<rparr>
      else p)"

definition agePhaseShift :: "config \<Rightarrow> real" where
  "agePhaseShift c = (if age c > 65 then -120 * min 1 ((age c - 65) / 20) else 0)"

definition mod_sdb :: "config \<Rightarrow> profile \<Rightarrow> profile" where
  "mod_sdb c p =
     (if sdbSeverity c > 0
      then (let factor = sdbSeverity c / 10 in
            p\<lparr>n3P := n3P p * (1 - factor * 0.75),
              remP := remP p * (1 - factor * 0.3),
              wasoMins := wasoMins p + factor * 80,
              n1P := n1P p + factor * 0.15,
              tst := tst p - factor * 60\<rparr>)
      else p)"

definition mod_nocturia :: "config \<Rightarrow> profile \<Rightarrow> profile" where
  "mod_nocturia c p =
     (if nocturia c > 0 then p\<lparr>wasoMins := wasoMins p + nocturia c * 10\<rparr> else p)"

definition recalc_n2 :: "profile \<Rightarrow> profile" where
  "recalc_n2 p =
     (let totalP = n3P p + remP p + n1P p;
          q = (if totalP > 0.95
               then p\<lparr>n3P := n3P p * (0.95 / totalP), remP := remP p * (0.95 / totalP),
                      n1P := n1P p * (0.95 / totalP)\<rparr>
               else p)
      in q\<lparr>n2P := 1.0 - (n3P q + remP q + n1P q)\<rparr>)"

text \<open>The pipeline up to the menopause block, that is before the severity enters.\<close>

definition pre_sdb :: "config \<Rightarrow> profile" where
  "pre_sdb c =
     mod_menopause c (mod_gender c (mod_socialJetLag c (mod_alcohol c (mod_caffeine c
       (mod_blueLight c (getAgeProfile (age c)))))))"

definition adjusted :: "config \<Rightarrow> profile" where
  "adjusted c = recalc_n2 (mod_nocturia c (mod_sdb c (pre_sdb c)))"

definition latency :: "config \<Rightarrow> real" where
  "latency c =
     (let l0 = 10 + max 0 ((age c - 20) * 0.25) + (activeCaffeine c * 20) + blueLightLatency c;
          l1 = (if alcohol c > 0 then max 5 (l0 - (alcohol c * 5)) else l0)
      in if isMenopausal c then l1 + 15 else l1)"

definition initialN1 :: "config \<Rightarrow> real" where
  "initialN1 c = 5 + (if age c > 50 then 5 else 0) + (activeCaffeine c * 5)"

subsection \<open>The wake injection points\<close>

text \<open>
  \<^verbatim>\<open>numWakeChunks\<close> is an integer that is at least 1, so it is a \<open>nat\<close> here. The
  \<open>k\<close>-th call of \<^verbatim>\<open>Math.random()\<close> is \<open>rnd k\<close>; the chunk indices use the first
  \<open>numWakeChunks\<close> calls.
\<close>

definition numWakeChunks :: "profile \<Rightarrow> nat" where
  "numWakeChunks p = nat (max 1 \<lfloor>wasoMins p / 15\<rfloor>)"

definition wakeChunkDuration :: "profile \<Rightarrow> real" where
  "wakeChunkDuration p = wasoMins p / real (numWakeChunks p)"

definition estCycles :: "profile \<Rightarrow> int" where
  "estCycles p = \<lceil>tst p / 90\<rceil>"

definition wakeInsertionIndices :: "profile \<Rightarrow> (nat \<Rightarrow> real) \<Rightarrow> int list" where
  "wakeInsertionIndices p rnd =
     sort (map (\<lambda>k. \<lfloor>rnd k * real_of_int (estCycles p)\<rfloor>) [0..<numWakeChunks p])"

subsection \<open>The continuous cycle loop\<close>

record loop_state =
  blocks :: "block list"
  currentTime :: real
  accumulatedSleep :: real
  cycleIndex :: nat
  wakeChunkIndex :: nat

text \<open>
  A sleep block is pushed, then \<^verbatim>\<open>currentTime\<close> and \<^verbatim>\<open>accumulatedSleep\<close> advance by
  its duration; a WAKE block advances \<^verbatim>\<open>currentTime\<close> only.
\<close>

definition emit_sleep :: "stage \<Rightarrow> real \<Rightarrow> loop_state \<Rightarrow> loop_state" where
  "emit_sleep st d s =
     s\<lparr>blocks := blocks s @ [\<lparr>stage = st, duration = d, start = currentTime s\<rparr>],
       currentTime := currentTime s + d,
       accumulatedSleep := accumulatedSleep s + d\<rparr>"

definition emit_wake :: "real \<Rightarrow> loop_state \<Rightarrow> loop_state" where
  "emit_wake d s =
     s\<lparr>blocks := blocks s @ [\<lparr>stage = WAKE, duration = d, start = currentTime s\<rparr>],
       currentTime := currentTime s + d\<rparr>"

text \<open>
  Lines 277 to 303: the local fractions \<open>(localN3, localREM, localN2)\<close> of cycle \<open>ci\<close>.
  (\<^verbatim>\<open>cycleProgress\<close> of line 275 is never read.)
\<close>

definition localN3_init :: "profile \<Rightarrow> nat \<Rightarrow> real" where
  "localN3_init p ci = n3P p * (1 - (real ci * 0.15)) * 2.0"

definition localREM_init :: "profile \<Rightarrow> nat \<Rightarrow> real" where
  "localREM_init p ci = remP p * (0.5 + (real ci * 0.20) * 1.5)"

definition local_raw :: "config \<Rightarrow> profile \<Rightarrow> nat \<Rightarrow> real \<times> real" where
  "local_raw c p ci =
     (let localN3 = localN3_init p ci;
          localREM = localREM_init p ci
      in if alcohol c > 0
         then (if ci < 2
               then (localN3 * (1 + alcohol c * 0.1), localREM * max 0.1 (1 - (alcohol c * 0.3)))
               else (localN3 * 0.5, localREM * (1 + alcohol c * 0.2)))
         else (localN3, localREM))"

definition local_normalize :: "real \<times> real \<Rightarrow> real \<times> real \<times> real" where
  "local_normalize lr =
     (case lr of (localN3, localREM) \<Rightarrow>
        (let localN2 = 1.0 - (localN3 + localREM) in
         if localN2 < 0
         then (let total = localN3 + localREM
               in ((localN3 / total) * 0.9, (localREM / total) * 0.9, 0.1))
         else (localN3, localREM, localN2)))"

definition local_fractions :: "config \<Rightarrow> profile \<Rightarrow> nat \<Rightarrow> real \<times> real \<times> real" where
  "local_fractions c p ci = local_normalize (local_raw c p ci)"

text \<open>Lines 305 to 347: the sleep blocks of one cycle.\<close>

definition cycle_body :: "config \<Rightarrow> profile \<Rightarrow> loop_state \<Rightarrow> loop_state" where
  "cycle_body c p s =
     (case local_fractions c p (cycleIndex s) of (localN3, localREM, localN2) \<Rightarrow>
        (let remainingSleep = tst p - accumulatedSleep s;
             currentCycleSleep = min 90 remainingSleep;
             s1 = emit_sleep N2 (currentCycleSleep * (localN2 * 0.4)) s;
             s2 = (if localN3 > 0.01 then emit_sleep N3 (currentCycleSleep * localN3) s1 else s1);
             s3 = emit_sleep N2 (currentCycleSleep * (localN2 * 0.6)) s2;
             s4 = emit_sleep REM (currentCycleSleep * localREM) s3
         in if currentCycleSleep \<ge> 90 * 0.9
            then emit_sleep N1 (2 + (if age c > 50 then 2 else 0)) s4
            else s4))"

text \<open>Lines 351 to 355: the inner loop that injects the WAKE chunks scheduled for this cycle.\<close>

function inject_wake :: "real \<Rightarrow> int list \<Rightarrow> loop_state \<Rightarrow> loop_state" where
  "inject_wake wcd idxs s =
     (if wakeChunkIndex s < length idxs \<and> idxs ! wakeChunkIndex s = int (cycleIndex s)
      then inject_wake wcd idxs ((emit_wake wcd s)\<lparr>wakeChunkIndex := wakeChunkIndex s + 1\<rparr>)
      else s)"
  by pat_completeness auto
termination
  by (relation "measure (\<lambda>(wcd, idxs, s). length idxs - wakeChunkIndex s)")
     (auto simp: emit_wake_def)

declare inject_wake.simps [simp del]

definition cycle_step :: "config \<Rightarrow> profile \<Rightarrow> real \<Rightarrow> int list \<Rightarrow> loop_state \<Rightarrow> loop_state" where
  "cycle_step c p wcd idxs s =
     (let s' = inject_wake wcd idxs (cycle_body c p s)
      in s'\<lparr>cycleIndex := cycleIndex s' + 1\<rparr>)"

text \<open>
  The \<^verbatim>\<open>while (accumulatedSleep < tst)\<close> loop. Nothing in its text bounds the number of
  iterations, so the model is a partial function: \<open>None\<close> means the loop runs forever.
\<close>

partial_function (option) cycle_loop ::
  "config \<Rightarrow> profile \<Rightarrow> real \<Rightarrow> int list \<Rightarrow> loop_state \<Rightarrow> loop_state option" where
  "cycle_loop c p wcd idxs s =
     (if accumulatedSleep s < tst p then cycle_loop c p wcd idxs (cycle_step c p wcd idxs s)
      else Some s)"

definition initial_state :: "config \<Rightarrow> loop_state" where
  "initial_state c =
     \<lparr>blocks = [\<lparr>stage = WAKE, duration = latency c, start = 0\<rparr>,
                \<lparr>stage = N1, duration = initialN1 c, start = latency c\<rparr>],
      currentTime = latency c + initialN1 c,
      accumulatedSleep = initialN1 c,
      cycleIndex = 0,
      wakeChunkIndex = 0\<rparr>"

subsection \<open>Overlay, post-processing and the result\<close>

record params =
  pa_chronotype :: string
  pa_startTimeOffset :: real
  pa_tst :: real
  pa_tib :: real

record stats =
  st_n3P :: real
  st_remP :: real
  st_n1P :: real
  st_n2P :: real
  st_wasoMins :: real
  st_tst :: real
  st_tib :: real
  st_sleepEfficiency :: real
  st_latency :: real

record result =
  res_blocks :: "block list"
  res_wakeEvents :: "wake_event list"
  res_params :: params
  res_stats :: stats

text \<open>
  The \<^verbatim>\<open>for\<close> loop of lines 367 to 370 runs for \<open>i = 0, 1, ...\<close> while
  \<open>i < numMicroArousals\<close>, that is \<open>\<lceil>numMicroArousals\<rceil>\<close> times; its calls of
  \<^verbatim>\<open>Math.random()\<close> come after the \<open>n\<close> calls made for the chunk indices.
\<close>

definition numMicroArousals :: "config \<Rightarrow> real" where
  "numMicroArousals c = 5 + (if age c > 50 then 5 else 0) + (sdbSeverity c * 15)"

definition wakeEvents :: "config \<Rightarrow> nat \<Rightarrow> (nat \<Rightarrow> real) \<Rightarrow> real \<Rightarrow> wake_event list" where
  "wakeEvents c n rnd curTime =
     map (\<lambda>i. \<lparr>time = latency c + rnd (n + i) * (curTime - latency c), ev_duration = 1\<rparr>)
       [0..<nat \<lceil>numMicroArousals c\<rceil>]"

definition teenShift :: "config \<Rightarrow> real" where
  "teenShift c =
     (if age c \<ge> 13 \<and> age c \<le> 21
      then (if age c \<le> 17 then ((age c - 13) / 4) * 90 else 90 - ((age c - 17) / 4) * 90)
      else 0)"

definition startTimeOffset :: "config \<Rightarrow> real" where
  "startTimeOffset c =
     (let o0 = (if chronotype c = ''lark'' then -120 else 0);
          o1 = (if chronotype c = ''owl'' then 180 else o0);
          o2 = (if socialJetLag c then o1 + bedtimeShift c else o1)
      in o2 + agePhaseShift c + teenShift c)"

definition actualTST :: "block list \<Rightarrow> real" where
  "actualTST bs = foldl (\<lambda>sum b. if stage b \<noteq> WAKE then sum + duration b else sum) 0 bs"

text \<open>
  Lines 394 to 409. In HOL \<open>x / 0 = 0\<close>, where JavaScript yields \<^verbatim>\<open>NaN\<close> or an
  infinity; the theorems below show that \<open>tib\<close> is positive wherever they use the quotient.
\<close>

definition finish :: "config \<Rightarrow> profile \<Rightarrow> (nat \<Rightarrow> real) \<Rightarrow> loop_state \<Rightarrow> result" where
  "finish c p rnd s =
     (let tstA = actualTST (blocks s);
          tib = currentTime s;
          sleepEfficiency = (tstA / tib) * 100
      in \<lparr>res_blocks = map (\<lambda>b. b\<lparr>start := start b + 240 + startTimeOffset c\<rparr>) (blocks s),
          res_wakeEvents = map (\<lambda>w. w\<lparr>time := time w + 240 + startTimeOffset c\<rparr>)
                             (wakeEvents c (numWakeChunks p) rnd (currentTime s)),
          res_params = \<lparr>pa_chronotype = chronotype c, pa_startTimeOffset = startTimeOffset c,
                        pa_tst = tstA, pa_tib = tib\<rparr>,
          res_stats = \<lparr>st_n3P = n3P p, st_remP = remP p, st_n1P = n1P p, st_n2P = n2P p,
                       st_wasoMins = wasoMins p, st_tst = tstA, st_tib = tib,
                       st_sleepEfficiency = sleepEfficiency, st_latency = latency c\<rparr>\<rparr>)"

definition generate :: "config \<Rightarrow> (nat \<Rightarrow> real) \<Rightarrow> result option" where
  "generate c rnd =
     (let p = adjusted c in
      case cycle_loop c p (wakeChunkDuration p) (wakeInsertionIndices p rnd) (initial_state c) of
        None \<Rightarrow> None
      | Some s \<Rightarrow> Some (finish c p rnd s))"

text \<open>The documented ranges of the numeric fields of a Configuration.\<close>

definition valid_config :: "config \<Rightarrow> bool" where
  "valid_config c \<longleftrightarrow>
     0 \<le> age c \<and> 0 \<le> alcohol c \<and> alcohol c \<le> 10 \<and> 0 \<le> caffeine c \<and> caffeine c \<le> 10 \<and>
     0 \<le> caffeineTime c \<and> 0 \<le> sdbSeverity c \<and> sdbSeverity c \<le> 10 \<and> 0 \<le> nocturia c"

subsection \<open>The generator in double precision\<close>

text \<open>
  The same code with the rounding of its IEEE doubles written out. A double is the real
  number it denotes; every arithmetic operation of the source rounds its exact result to
  the nearest double, ties to even (\<open>fl\<close>), and every decimal literal denotes the
  nearest double. Overflow, subnormal numbers and \<^verbatim>\<open>NaN\<close> are left out: the magnitudes
  of this program stay far inside the normal range. \<^verbatim>\<open>Math.pow\<close> is taken to round
  correctly. The fields of a configuration and the random draws are doubles as given.
\<close>

fun binary_digits :: "nat \<Rightarrow> nat" where
  "binary_digits n = (if n = 0 then 0 else Suc (binary_digits (n div 2)))"

declare binary_digits.simps [simp del]

text \<open>The binary exponent \<open>\<lfloor>log\<^sub>2 x\<rfloor>\<close> of a positive number.\<close>

definition expo :: "real \<Rightarrow> int" where
  "expo x = (if 1 \<le> x then int (binary_digits (nat \<lfloor>x\<rfloor>)) - 1
             else - int (binary_digits (nat (\<lceil>1 / x\<rceil> - 1))))"

definition pow2 :: "int \<Rightarrow> real" where
  "pow2 k = (if 0 \<le> k then 2 ^ nat k else 1 / 2 ^ nat (- k))"

definition nearest_even :: "real \<Rightarrow> int" where
  "nearest_even m =
     (let f = \<lfloor>m\<rfloor> in
      if m - of_int f < 1 / 2 then f
      else if 1 / 2 < m - of_int f then f + 1
      else if even f then f else f + 1)"

text \<open>Rounding to 53 significant bits: the unit in the last place is \<open>2 ^ (expo - 52)\<close>.\<close>

definition fl :: "real \<Rightarrow> real" where
  "fl x =
     (if x = 0 then 0
      else (let u = pow2 (expo \<bar>x\<bar> - 52);
                v = of_int (nearest_even (\<bar>x\<bar> / u)) * u
            in if x < 0 then - v else v))"

definition fadd :: "real \<Rightarrow> real \<Rightarrow> real" where
  "fadd x y = fl (x + y)"

definition fsub :: "real \<Rightarrow> real \<Rightarrow> real" where
  "fsub x y = fl (x - y)"

definition fmul :: "real \<Rightarrow> real \<Rightarrow> real" where
  "fmul x y = fl (x * y)"

definition fdiv :: "real \<Rightarrow> real \<Rightarrow> real" where
  "fdiv x y = fl (x / y)"

fun interpolate_scan_d :: "real \<Rightarrow> (real \<times> real) list \<Rightarrow> real \<Rightarrow> real" where
  "interpolate_scan_d val ((a1, v1) # (a2, v2) # ks) dflt =
     (if val \<ge> a1 \<and> val \<le> a2
      then fadd v1 (fmul (fdiv (fsub val a1) (fsub a2 a1)) (fsub v2 v1))
      else interpolate_scan_d val ((a2, v2) # ks) dflt)"
| "interpolate_scan_d val ks dflt = dflt"

text \<open>The keyframe tables hold the doubles nearest to their decimal literals.\<close>

definition as_doubles :: "(real \<times> real) list \<Rightarrow> (real \<times> real) list" where
  "as_doubles keyframes = map (\<lambda>(a, v). (fl a, fl v)) keyframes"

definition interpolate_d :: "real \<Rightarrow> (real \<times> real) list \<Rightarrow> real" where
  "interpolate_d val keyframes =
     (if val \<le> fst (hd keyframes) then snd (hd keyframes)
      else if val \<ge> fst (last keyframes) then snd (last keyframes)
      else interpolate_scan_d val keyframes (snd (last keyframes)))"

definition safety_normalization_d :: "real \<Rightarrow> real \<Rightarrow> real \<Rightarrow> real \<times> real \<times> real \<times> real" where
  "safety_normalization_d n3 rem n1 =
     (let n2 = fsub 1.0 (fadd (fadd n3 rem) n1) in
      if n2 < 0 then
        (let sum = fadd (fadd n3 rem) n1
         in (fmul (fdiv n3 sum) (fl 0.95), fmul (fdiv rem sum) (fl 0.95),
             fmul (fdiv n1 sum) (fl 0.95), fl 0.05))
      else (n3, rem, n1, n2))"

definition getAgeProfile_d :: "real \<Rightarrow> profile" where
  "getAgeProfile_d a =
     (case safety_normalization_d (interpolate_d a (as_doubles n3Keyframes))
             (interpolate_d a (as_doubles remKeyframes))
             (interpolate_d a (as_doubles n1Keyframes)) of
        (n3, rem, n1, n2) \<Rightarrow>
          \<lparr>tst = interpolate_d a (as_doubles tstKeyframes), n3P = n3, remP = rem, n1P = n1,
           n2P = n2, wasoMins = interpolate_d a (as_doubles wasoKeyframes)\<rparr>)"

definition activeCaffeine_d :: "config \<Rightarrow> real" where
  "activeCaffeine_d c = fmul (caffeine c) (fl (fl 0.5 powr fdiv (caffeineTime c) (halfLife c)))"

definition mod_blueLight_d :: "config \<Rightarrow> profile \<Rightarrow> profile" where
  "mod_blueLight_d c p =
     (if blueLight c
      then p\<lparr>tst := fsub (tst p) 30, n3P := fmul (n3P p) (fl 0.85),
             remP := fmul (remP p) (fl 0.9), n1P := fadd (n1P p) (fl 0.03)\<rparr>
      else p)"

definition mod_caffeine_d :: "config \<Rightarrow> profile \<Rightarrow> profile" where
  "mod_caffeine_d c p =
     (if activeCaffeine_d c > fl 0.1
      then p\<lparr>n3P := fmul (n3P p) (max (fl 0.5) (fsub 1 (fmul (activeCaffeine_d c) (fl 0.15)))),
             n1P := fadd (n1P p) (fmul (activeCaffeine_d c) (fl 0.03)),
             tst := fsub (tst p) (fmul (activeCaffeine_d c) 15),
             wasoMins := fadd (wasoMins p) (fmul (activeCaffeine_d c) 15)\<rparr>
      else p)"

definition mod_alcohol_d :: "config \<Rightarrow> profile \<Rightarrow> profile" where
  "mod_alcohol_d c p =
     (if alcohol c > 0
      then p\<lparr>n3P := fmul (n3P p) (max (fl 0.6) (fsub 1 (fmul (alcohol c) (fl 0.1)))),
             remP := fmul (remP p) (max (fl 0.4) (fsub 1 (fmul (alcohol c) (fl 0.15)))),
             wasoMins := fadd (wasoMins p) (fmul (alcohol c) 25)\<rparr>
      else p)"

definition mod_socialJetLag_d :: "config \<Rightarrow> profile \<Rightarrow> profile" where
  "mod_socialJetLag_d c p =
     (if socialJetLag c
      then p\<lparr>tst := fsub (tst p) 60, n3P := fmul (n3P p) (fl 0.85),
             remP := fmul (remP p) (fl 0.8), wasoMins := fadd (wasoMins p) 30\<rparr>
      else p)"

definition mod_gender_d :: "config \<Rightarrow> profile \<Rightarrow> profile" where
  "mod_gender_d c p =
     (if gender c = ''male'' \<and> age c > 30
      then p\<lparr>wasoMins := fmul (wasoMins p) (fl 1.1)\<rparr> else p)"

definition mod_menopause_d :: "config \<Rightarrow> profile \<Rightarrow> profile" where
  "mod_menopause_d c p =
     (if isMenopausal c
      then p\<lparr>wasoMins := fadd (wasoMins p) 45, n3P := fmul (n3P p) (fl 0.80),
             remP := fmul (remP p) (fl 0.9), n1P := fadd (n1P p) (fl 0.05)\<rparr>
      else p)"

definition agePhaseShift_d :: "config \<Rightarrow> real" where
  "agePhaseShift_d c =
     (if age c > 65 then fmul (- 120) (min 1 (fdiv (fsub (age c) 65) 20)) else 0)"

definition mod_sdb_d :: "config \<Rightarrow> profile \<Rightarrow> profile" where
  "mod_sdb_d c p =
     (if sdbSeverity c > 0
      then (let factor = fdiv (sdbSeverity c) 10 in
            p\<lparr>n3P := fmul (n3P p) (fsub 1 (fmul factor (fl 0.75))),
              remP := fmul (remP p) (fsub 1 (fmul factor (fl 0.3))),
              wasoMins := fadd (wasoMins p) (fmul factor 80),
              n1P := fadd (n1P p) (fmul factor (fl 0.15)),
              tst := fsub (tst p) (fmul factor 60)\<rparr>)
      else p)"

definition mod_nocturia_d :: "config \<Rightarrow> profile \<Rightarrow> profile" where
  "mod_nocturia_d c p =
     (if nocturia c > 0 then p\<lparr>wasoMins := fadd (wasoMins p) (fmul (nocturia c) 10)\<rparr> else p)"

definition recalc_n2_d :: "profile \<Rightarrow> profile" where
  "recalc_n2_d p =
     (let totalP = fadd (fadd (n3P p) (remP p)) (n1P p);
          q = (if totalP > fl 0.95
               then p\<lparr>n3P := fmul (n3P p) (fdiv (fl 0.95) totalP),
                      remP := fmul (remP p) (fdiv (fl 0.95) totalP),
                      n1P := fmul (n1P p) (fdiv (fl 0.95) totalP)\<rparr>
               else p)
      in q\<lparr>n2P := fsub 1.0 (fadd (fadd (n3P q) (remP q)) (n1P q))\<rparr>)"

definition adjusted_d :: "config \<Rightarrow> profile" where
  "adjusted_d c =
     recalc_n2_d (mod_nocturia_d c (mod_sdb_d c (mod_menopause_d c (mod_gender_d c
       (mod_socialJetLag_d c (mod_alcohol_d c (mod_caffeine_d c (mod_blueLight_d c
         (getAgeProfile_d (age c))))))))))"

definition latency_d :: "config \<Rightarrow> real" where
  "latency_d c =
     (let l0 = fadd (fadd (fadd 10 (max 0 (fmul (fsub (age c) 20) (fl 0.25))))
                       (fmul (activeCaffeine_d c) 20)) (blueLightLatency c);
          l1 = (if alcohol c > 0 then max 5 (fsub l0 (fmul (alcohol c) 5)) else l0)
      in if isMenopausal c then fadd l1 15 else l1)"

definition initialN1_d :: "config \<Rightarrow> real" where
  "initialN1_d c = fadd (fadd 5 (if age c > 50 then 5 else 0)) (fmul (activeCaffeine_d c) 5)"

definition numWakeChunks_d :: "profile \<Rightarrow> nat" where
  "numWakeChunks_d p = nat (max 1 \<lfloor>fdiv (wasoMins p) 15\<rfloor>)"

definition wakeChunkDuration_d :: "profile \<Rightarrow> real" where
  "wakeChunkDuration_d p = fdiv (wasoMins p) (real (numWakeChunks_d p))"

definition estCycles_d :: "profile \<Rightarrow> int" where
  "estCycles_d p = \<lceil>fdiv (tst p) 90\<rceil>"

definition wakeInsertionIndices_d :: "profile \<Rightarrow> (nat \<Rightarrow> real) \<Rightarrow> int list" where
  "wakeInsertionIndices_d p rnd =
     sort (map (\<lambda>k. \<lfloor>fmul (rnd k) (real_of_int (estCycles_d p))\<rfloor>) [0..<numWakeChunks_d p])"

definition emit_sleep_d :: "stage \<Rightarrow> real \<Rightarrow> loop_state \<Rightarrow> loop_state" where
  "emit_sleep_d st d s =
     s\<lparr>blocks := blocks s @ [\<lparr>stage = st, duration = d, start = currentTime s\<rparr>],
       currentTime := fadd (currentTime s) d,
       accumulatedSleep := fadd (accumulatedSleep s) d\<rparr>"

definition emit_wake_d :: "real \<Rightarrow> loop_state \<Rightarrow> loop_state" where
  "emit_wake_d d s =
     s\<lparr>blocks := blocks s @ [\<lparr>stage = WAKE, duration = d, start = currentTime s\<rparr>],
       currentTime := fadd (currentTime s) d\<rparr>"

definition localN3_init_d :: "profile \<Rightarrow> nat \<Rightarrow> real" where
  "localN3_init_d p ci = fmul (fmul (n3P p) (fsub 1 (fmul (real ci) (fl 0.15)))) 2.0"

definition localREM_init_d :: "profile \<Rightarrow> nat \<Rightarrow> real" where
  "localREM_init_d p ci =
     fmul (remP p) (fadd (fl 0.5) (fmul (fmul (real ci) (fl 0.20)) (fl 1.5)))"

definition local_raw_d :: "config \<Rightarrow> profile \<Rightarrow> nat \<Rightarrow> real \<times> real" where
  "local_raw_d c p ci =
     (let localN3 = localN3_init_d p ci;
          localREM = localREM_init_d p ci
      in if alcohol c > 0
         then (if ci < 2
               then (fmul localN3 (fadd 1 (fmul (alcohol c) (fl 0.1))),
                     fmul localREM (max (fl 0.1) (fsub 1 (fmul (alcohol c) (fl 0.3)))))
               else (fmul localN3 (fl 0.5), fmul localREM (fadd 1 (fmul (alcohol c) (fl 0.2)))))
         else (localN3, localREM))"

definition local_normalize_d :: "real \<times> real \<Rightarrow> real \<times> real \<times> real" where
  "local_normalize_d lr =
     (case lr of (localN3, localREM) \<Rightarrow>
        (let localN2 = fsub 1.0 (fadd localN3 localREM) in
         if localN2 < 0
         then (let total = fadd localN3 localREM
               in (fmul (fdiv localN3 total) (fl 0.9), fmul (fdiv localREM total) (fl 0.9),
                   fl 0.1))
         else (localN3, localREM, localN2)))"

definition local_fractions_d :: "config \<Rightarrow> profile \<Rightarrow> nat \<Rightarrow> real \<times> real \<times> real" where
  "local_fractions_d c p ci = local_normalize_d (local_raw_d c p ci)"

definition cycle_body_d :: "config \<Rightarrow> profile \<Rightarrow> loop_state \<Rightarrow> loop_state" where
  "cycle_body_d c p s =
     (case local_fractions_d c p (cycleIndex s) of (localN3, localREM, localN2) \<Rightarrow>
        (let remainingSleep = fsub (tst p) (accumulatedSleep s);
             currentCycleSleep = min 90 remainingSleep;
             s1 = emit_sleep_d N2 (fmul currentCycleSleep (fmul localN2 (fl 0.4))) s;
             s2 = (if localN3 > fl 0.01
                   then emit_sleep_d N3 (fmul currentCycleSleep localN3) s1 else s1);
             s3 = emit_sleep_d N2 (fmul currentCycleSleep (fmul localN2 (fl 0.6))) s2;
             s4 = emit_sleep_d REM (fmul currentCycleSleep localREM) s3
         in if currentCycleSleep \<ge> fmul 90 (fl 0.9)
            then emit_sleep_d N1 (fadd 2 (if age c > 50 then 2 else 0)) s4
            else s4))"

function inject_wake_d :: "real \<Rightarrow> int list \<Rightarrow> loop_state \<Rightarrow> loop_state" where
  "inject_wake_d wcd idxs s =
     (if wakeChunkIndex s < length idxs \<and> idxs ! wakeChunkIndex s = int (cycleIndex s)
      then inject_wake_d wcd idxs ((emit_wake_d wcd s)\<lparr>wakeChunkIndex := wakeChunkIndex s + 1\<rparr>)
      else s)"
  by pat_completeness auto
termination
  by (relation "measure (\<lambda>(wcd, idxs, s). length idxs - wakeChunkIndex s)")
     (auto simp: emit_wake_d_def)

declare inject_wake_d.simps [simp del]

definition cycle_step_d :: "config \<Rightarrow> profile \<Rightarrow> real \<Rightarrow> int list \<Rightarrow> loop_state \<Rightarrow> loop_state" where
  "cycle_step_d c p wcd idxs s =
     (let s' = inject_wake_d wcd idxs (cycle_body_d c p s)
      in s'\<lparr>cycleIndex := cycleIndex s' + 1\<rparr>)"

partial_function (option) cycle_loop_d ::
  "config \<Rightarrow> profile \<Rightarrow> real \<Rightarrow> int list \<Rightarrow> loop_state \<Rightarrow> loop_state option" where
  "cycle_loop_d c p wcd idxs s =
     (if accumulatedSleep s < tst p then cycle_loop_d c p wcd idxs (cycle_step_d c p wcd idxs s)
      else Some s)"

definition initial_state_d :: "config \<Rightarrow> loop_state" where
  "initial_state_d c =
     \<lparr>blocks = [\<lparr>stage = WAKE, duration = latency_d c, start = 0\<rparr>,
                \<lparr>stage = N1, duration = initialN1_d c, start = fadd 0 (latency_d c)\<rparr>],
      currentTime = fadd (fadd 0 (latency_d c)) (initialN1_d c),
      accumulatedSleep = initialN1_d c,
      cycleIndex = 0,
      wakeChunkIndex = 0\<rparr>"

definition numMicroArousals_d :: "config \<Rightarrow> real" where
  "numMicroArousals_d c = fadd (fadd 5 (if age c > 50 then 5 else 0)) (fmul (sdbSeverity c) 15)"

definition wakeEvents_d :: "config \<Rightarrow> nat \<Rightarrow> (nat \<Rightarrow> real) \<Rightarrow> real \<Rightarrow> wake_event list" where
  "wakeEvents_d c n rnd curTime =
     map (\<lambda>i. \<lparr>time = fadd (latency_d c) (fmul (rnd (n + i)) (fsub curTime (latency_d c))),
               ev_duration = 1\<rparr>)
       [0..<nat \<lceil>numMicroArousals_d c\<rceil>]"

definition teenShift_d :: "config \<Rightarrow> real" where
  "teenShift_d c =
     (if age c \<ge> 13 \<and> age c \<le> 21
      then (if age c \<le> 17 then fmul (fdiv (fsub (age c) 13) 4) 90
            else fsub 90 (fmul (fdiv (fsub (age c) 17) 4) 90))
      else 0)"

definition startTimeOffset_d :: "config \<Rightarrow> real" where
  "startTimeOffset_d c =
     (let o0 = (if chronotype c = ''lark'' then -120 else 0);
          o1 = (if chronotype c = ''owl'' then 180 else o0);
          o2 = (if socialJetLag c then fadd o1 (bedtimeShift c) else o1)
      in fadd (fadd o2 (agePhaseShift_d c)) (teenShift_d c))"

definition actualTST_d :: "block list \<Rightarrow> real" where
  "actualTST_d bs = foldl (\<lambda>sum b. if stage b \<noteq> WAKE then fadd sum (duration b) else sum) 0 bs"

definition finish_d :: "config \<Rightarrow> profile \<Rightarrow> (nat \<Rightarrow> real) \<Rightarrow> loop_state \<Rightarrow> result" where
  "finish_d c p rnd s =
     (let tstA = actualTST_d (blocks s);
          tib = currentTime s;
          sleepEfficiency = fmul (fdiv tstA tib) 100
      in \<lparr>res_blocks = map (\<lambda>b. b\<lparr>start := fadd (fadd (start b) 240) (startTimeOffset_d c)\<rparr>)
                          (blocks s),
          res_wakeEvents = map (\<lambda>w. w\<lparr>time := fadd (fadd (time w) 240) (startTimeOffset_d c)\<rparr>)
                             (wakeEvents_d c (numWakeChunks_d p) rnd (currentTime s)),
          res_params = \<lparr>pa_chronotype = chronotype c, pa_startTimeOffset = startTimeOffset_d c,
                        pa_tst = tstA, pa_tib = tib\<rparr>,
          res_stats = \<lparr>st_n3P = n3P p, st_remP = remP p, st_n1P = n1P p, st_n2P = n2P p,
                       st_wasoMins = wasoMins p, st_tst = tstA, st_tib = tib,
                       st_sleepEfficiency = sleepEfficiency, st_latency = latency_d c\<rparr>\<rparr>)"

definition generate_d :: "config \<Rightarrow> (nat \<Rightarrow> real) \<Rightarrow> result option" where
  "generate_d c rnd =
     (let p = adjusted_d c in
      case cycle_loop_d c p (wakeChunkDuration_d p) (wakeInsertionIndices_d p rnd)
             (initial_state_d c) of
        None \<Rightarrow> None
      | Some s \<Rightarrow> Some (finish_d c p rnd s))"

subsection \<open>Predicates and quantities used in the proofs\<close>

text \<open>
  None of these is part of the program: they name the invariants of the loop and the
  amounts that one cycle adds.
\<close>

text \<open>Each block ends where the next one starts.\<close>

fun contiguous :: "block list \<Rightarrow> bool" where
  "contiguous (a # b # bs) = (start a + duration a = start b \<and> contiguous (b # bs))"
| "contiguous bs = True"

text \<open>
  The block list of a loop state agrees with its counters: it starts at time 0, is
  contiguous, ends at \<open>currentTime\<close>, its durations sum to \<open>currentTime\<close> and its
  non-WAKE durations to \<open>accumulatedSleep\<close>.
\<close>

definition wf_state :: "loop_state \<Rightarrow> bool" where
  "wf_state s \<longleftrightarrow>
     blocks s \<noteq> [] \<and> contiguous (blocks s) \<and> start (hd (blocks s)) = 0 \<and>
     start (last (blocks s)) + duration (last (blocks s)) = currentTime s \<and>
     sum_list (map duration (blocks s)) = currentTime s \<and>
     actualTST (blocks s) = accumulatedSleep s"

text \<open>Bounds that the targets keep through the whole modifier pipeline.\<close>

definition good_profile :: "profile \<Rightarrow> bool" where
  "good_profile p \<longleftrightarrow>
     0 < n3P p \<and> n3P p \<le> 0.25 \<and> 0 < remP p \<and> remP p \<le> 0.5 \<and> 0 \<le> n1P p \<and>
     0 \<le> wasoMins p \<and> tst p \<le> 960"

text \<open>
  One cycle with budget \<open>x\<close> adds \<open>x * (1 - skipped_n3) + transN1\<close> minutes of sleep:
  the N3 share is left out when the N3 block is skipped (local N3 at most 0.01), and a
  cycle of at least 81 minutes adds the post-REM N1 block.
\<close>

definition skipped_n3 :: "config \<Rightarrow> profile \<Rightarrow> nat \<Rightarrow> real" where
  "skipped_n3 c p ci = (case local_fractions c p ci of (a, b, n2) \<Rightarrow> if a > 0.01 then 0 else a)"

definition transN1 :: "config \<Rightarrow> real \<Rightarrow> real" where
  "transN1 c ccs = (if ccs \<ge> 81 then 2 + (if age c > 50 then 2 else 0) else 0)"

text \<open>
  The variant of the loop. From cycle 7 on the local N3 fraction is not positive, so a
  cycle adds at least its budget; before that only the cycle index is known to advance.
\<close>

definition loop_measure :: "profile \<Rightarrow> loop_state \<Rightarrow> nat" where
  "loop_measure p s = (7 - cycleIndex s) + nat \<lceil>(tst p - accumulatedSleep s) / 90\<rceil>"

text \<open>The clock is the sleep so far, the latency, and the wake chunks injected so far.\<close>

definition time_inv :: "real \<Rightarrow> real \<Rightarrow> loop_state \<Rightarrow> bool" where
  "time_inv lat wcd s \<longleftrightarrow>
     currentTime s = accumulatedSleep s + lat + wcd * real (wakeChunkIndex s)"

text \<open>
  The sleep counter never passes the target by 90 minutes, and while the loop runs it is at
  least 90 minutes per cycle from cycle 7 on, which bounds the cycle index.
\<close>

definition sleep_inv :: "profile \<Rightarrow> loop_state \<Rightarrow> bool" where
  "sleep_inv p s \<longleftrightarrow>
     0 \<le> accumulatedSleep s \<and> accumulatedSleep s < tst p + 90 \<and>
     min (tst p) (90 * (real (cycleIndex s) - 7)) \<le> accumulatedSleep s"

definition run_inv :: "config \<Rightarrow> loop_state \<Rightarrow> bool" where
  "run_inv c s \<longleftrightarrow>
     wf_state s \<and> time_inv (latency c) (wakeChunkDuration (adjusted c)) s \<and>
     sleep_inv (adjusted c) s \<and> initialN1 c \<le> accumulatedSleep s"

text \<open>A configuration with every modifier off, used to instantiate the theorems.\<close>

definition example_config :: config where
  "example_config =
     \<lparr>age = 29, gender = ''female'', alcohol = 0, caffeine = 0, caffeineTime = 0,
      caffeineMetabolism = ''normal'', sdbSeverity = 0, nocturia = 0, chronotype = ''normal'',
      socialJetLag = False, blueLight = False, isMenopausal = False\<rparr>"

text \<open>A configuration whose adjusted target (0 minutes) is below its initial N1 block.\<close>

definition short_night_config :: config where
  "short_night_config =
     \<lparr>age = 95, gender = ''female'', alcohol = 0, caffeine = 10, caffeineTime = 0,
      caffeineMetabolism = ''normal'', sdbSeverity = 10, nocturia = 0, chronotype = ''normal'',
      socialJetLag = True, blueLight = True, isMenopausal = False\<rparr>"

text \<open>
  The states of the run of the example configuration whose only chunk is scheduled for
  cycle 5: cycle index \<open>k\<close>, \<open>a\<close> minutes of sleep, no chunk injected yet.
\<close>

definition example_inv :: "nat \<Rightarrow> real \<Rightarrow> loop_state \<Rightarrow> bool" where
  "example_inv k a s \<longleftrightarrow>
     cycleIndex s = k \<and> accumulatedSleep s = a \<and> wakeChunkIndex s = 0 \<and>
     filter (\<lambda>b. stage b = WAKE) (blocks s) = [\<lparr>stage = WAKE, duration = 49 / 4, start = 0\<rparr>] \<and>
     wf_state s \<and> time_inv (49 / 4) (39 / 2) s"



text \<open>
  The state of the double-precision loop after \<open>k\<close> executions of its body, whether or not
  the guard lets the loop get that far.
\<close>

definition run_d :: "config \<Rightarrow> (nat \<Rightarrow> real) \<Rightarrow> nat \<Rightarrow> loop_state" where
  "run_d c rnd k =
     ((cycle_step_d c (adjusted_d c) (wakeChunkDuration_d (adjusted_d c))
         (wakeInsertionIndices_d (adjusted_d c) rnd)) ^^ k) (initial_state_d c)"

text \<open>The example configuration at age 50.\<close>

definition age50_config :: config where
  "age50_config = example_config\<lparr>age := 50\<rparr>"

subsection \<open>The age profile\<close>

lemma interpolate_n3_bounds: "0.10 \<le> interpolate a n3Keyframes \<and> interpolate a n3Keyframes \<le> 0.25"
  unfolding interpolate_def n3Keyframes_def
  by (simp add: field_simps)

lemma interpolate_rem_bounds: "0.18 \<le> interpolate a remKeyframes \<and> interpolate a remKeyframes \<le> 0.5"
  unfolding interpolate_def remKeyframes_def
  by (simp add: field_simps)

lemma interpolate_n1_bounds: "0.05 \<le> interpolate a n1Keyframes \<and> interpolate a n1Keyframes \<le> 0.12"
  unfolding interpolate_def n1Keyframes_def
  by (simp add: field_simps)

lemma interpolate_tst_bounds: "300 \<le> interpolate a tstKeyframes \<and> interpolate a tstKeyframes \<le> 960"
  unfolding interpolate_def tstKeyframes_def
  by (simp add: field_simps)

lemma interpolate_waso_bounds: "5 \<le> interpolate a wasoKeyframes \<and> interpolate a wasoKeyframes \<le> 150"
  unfolding interpolate_def wasoKeyframes_def
  by (simp add: field_simps)

lemma safety_normalization_branch:
  assumes "1 - (n3 + rem + n1) < 0"
  shows "safety_normalization n3 rem n1 =
           (n3 / (n3 + rem + n1) * 0.95, rem / (n3 + rem + n1) * 0.95, n1 / (n3 + rem + n1) * 0.95, 0.05)"
  using assms by (simp add: safety_normalization_def Let_def)

lemma rescale_sum:
  fixes x y z k :: real
  assumes "x + y + z \<noteq> 0"
  shows "x / (x + y + z) * k + y / (x + y + z) * k + z / (x + y + z) * k = k"
proof -
  have "x / (x + y + z) * k + y / (x + y + z) * k + z / (x + y + z) * k
        = (x + y + z) * k / (x + y + z)"
    by (simp add: add_divide_distrib distrib_right)
  also have "\<dots> = k" using assms by simp
  finally show ?thesis .
qed

subsection \<open>Block lists\<close>

lemma contiguous_snoc:
  "contiguous bs \<Longrightarrow> bs \<noteq> [] \<Longrightarrow> start (last bs) + duration (last bs) = start b
     \<Longrightarrow> contiguous (bs @ [b])"
  by (induction bs rule: contiguous.induct) auto

lemma contiguous_nth:
  "contiguous bs \<Longrightarrow> Suc i < length bs \<Longrightarrow> start (bs ! i) + duration (bs ! i) = start (bs ! Suc i)"
proof (induction bs arbitrary: i rule: contiguous.induct)
  case (1 a b bs)
  then show ?case by (cases i) auto
qed auto

lemma contiguous_shift:
  "contiguous bs \<Longrightarrow> contiguous (map (\<lambda>b. b\<lparr>start := start b + k\<rparr>) bs)"
  by (induction bs rule: contiguous.induct) auto

lemma foldl_sleep_acc:
  "foldl (\<lambda>sum b. if stage b \<noteq> WAKE then sum + duration b else sum) a bs
     = a + sum_list (map duration (filter (\<lambda>b. stage b \<noteq> WAKE) bs))"
  by (induction bs arbitrary: a) auto

lemma actualTST_sum:
  "actualTST bs = sum_list (map duration (filter (\<lambda>b. stage b \<noteq> WAKE) bs))"
  by (simp add: actualTST_def foldl_sleep_acc)

lemma wf_initial: "wf_state (initial_state c)"
  by (simp add: wf_state_def initial_state_def actualTST_sum)

lemma wf_emit_sleep: "wf_state s \<Longrightarrow> st \<noteq> WAKE \<Longrightarrow> wf_state (emit_sleep st d s)"
  by (simp add: wf_state_def emit_sleep_def actualTST_sum contiguous_snoc)

lemma wf_emit_wake: "wf_state s \<Longrightarrow> wf_state (emit_wake d s)"
  by (simp add: wf_state_def emit_wake_def actualTST_sum contiguous_snoc)

lemma wf_cycle_body: "wf_state s \<Longrightarrow> wf_state (cycle_body c p s)"
  by (cases "local_fractions c p (cycleIndex s)")
     (simp add: cycle_body_def Let_def wf_emit_sleep)

lemma wf_wakeChunkIndex: "wf_state s \<Longrightarrow> wf_state (s\<lparr>wakeChunkIndex := k\<rparr>)"
  by (simp add: wf_state_def)

lemma wf_cycleIndex: "wf_state s \<Longrightarrow> wf_state (s\<lparr>cycleIndex := k\<rparr>)"
  by (simp add: wf_state_def)

lemma inject_wake_more:
  "wakeChunkIndex s < length idxs \<Longrightarrow> idxs ! wakeChunkIndex s = int (cycleIndex s) \<Longrightarrow>
   inject_wake wcd idxs s
     = inject_wake wcd idxs ((emit_wake wcd s)\<lparr>wakeChunkIndex := wakeChunkIndex s + 1\<rparr>)"
  by (subst inject_wake.simps) simp

lemma inject_wake_stop:
  "\<not> (wakeChunkIndex s < length idxs \<and> idxs ! wakeChunkIndex s = int (cycleIndex s)) \<Longrightarrow>
   inject_wake wcd idxs s = s"
  by (subst inject_wake.simps) (simp only: if_False)

lemma inject_wake_preserves:
  "P s \<Longrightarrow> (\<And>t. P t \<Longrightarrow> P ((emit_wake wcd t)\<lparr>wakeChunkIndex := wakeChunkIndex t + 1\<rparr>))
     \<Longrightarrow> P (inject_wake wcd idxs s)"
proof (induction wcd idxs s rule: inject_wake.induct)
  case (1 wcd idxs s)
  show ?case
  proof (cases "wakeChunkIndex s < length idxs \<and> idxs ! wakeChunkIndex s = int (cycleIndex s)")
    case True
    have "P ((emit_wake wcd s)\<lparr>wakeChunkIndex := wakeChunkIndex s + 1\<rparr>)"
      by (rule "1.prems"(2)[OF "1.prems"(1)])
    with True "1.IH" "1.prems"(2)
    have "P (inject_wake wcd idxs ((emit_wake wcd s)\<lparr>wakeChunkIndex := wakeChunkIndex s + 1\<rparr>))"
      by blast
    with True show ?thesis by (simp only: inject_wake_more)
  next
    case False
    from inject_wake_stop[OF False] "1.prems"(1) show ?thesis by simp
  qed
qed

lemma wf_inject_wake: "wf_state s \<Longrightarrow> wf_state (inject_wake wcd idxs s)"
  by (rule inject_wake_preserves) (simp_all add: wf_emit_wake wf_wakeChunkIndex)

lemma wf_cycle_step: "wf_state s \<Longrightarrow> wf_state (cycle_step c p wcd idxs s)"
  by (simp add: cycle_step_def Let_def wf_cycleIndex wf_inject_wake wf_cycle_body)

lemma cycle_loop_invariant_aux:
  assumes step: "\<And>t. I t \<Longrightarrow> accumulatedSleep t < tst p \<Longrightarrow> I (cycle_step c p wcd idxs t)"
  shows "cycle_loop c0 p0 w0 i0 s0 = Some y \<Longrightarrow>
           c0 = c \<and> p0 = p \<and> w0 = wcd \<and> i0 = idxs \<and> I s0 \<longrightarrow> I y \<and> \<not> accumulatedSleep y < tst p"
proof (induction c0 p0 w0 i0 s0 y rule: cycle_loop.raw_induct[rotated 1, consumes 1])
  case (1 f c1 p1 w1 i1 s1 y1)
  show ?case
  proof (intro impI, elim conjE)
    assume eq: "c1 = c" "p1 = p" "w1 = wcd" "i1 = idxs" and inv: "I s1"
    show "I y1 \<and> \<not> accumulatedSleep y1 < tst p"
    proof (cases "accumulatedSleep s1 < tst p")
      case True
      with 1(2) eq have "f c p wcd idxs (cycle_step c p wcd idxs s1) = Some y1" by simp
      from 1(1)[OF this] step[OF inv True] show ?thesis by blast
    next
      case False
      with 1(2) eq have "y1 = s1" by simp
      with inv False show ?thesis by simp
    qed
  qed
qed

lemma cycle_loop_invariant:
  assumes "cycle_loop c p wcd idxs s = Some s'"
    and "I s"
    and "\<And>t. I t \<Longrightarrow> accumulatedSleep t < tst p \<Longrightarrow> I (cycle_step c p wcd idxs t)"
  shows "I s' \<and> \<not> accumulatedSleep s' < tst p"
  using cycle_loop_invariant_aux[of I p c wcd idxs, OF assms(3) assms(1)] assms(2) by blast

subsection \<open>Modifiers: bounds\<close>

lemma halfLife_pos: "0 < halfLife c"
  by (simp add: halfLife_def Let_def)

lemma activeCaffeine_bounds:
  assumes "valid_config c"
  shows "0 \<le> activeCaffeine c" and "activeCaffeine c \<le> 10"
proof -
  have c: "0 \<le> caffeine c" "caffeine c \<le> 10" "0 \<le> caffeineTime c"
    using assms by (simp_all add: valid_config_def)
  have e: "0 \<le> caffeineTime c / halfLife c"
    using c(3) halfLife_pos[of c] by simp
  have p0: "0 \<le> (0.5::real) powr (caffeineTime c / halfLife c)" by simp
  have p1: "(0.5::real) powr (caffeineTime c / halfLife c) \<le> 1"
    using e by (intro powr_le1) simp_all
  show "0 \<le> activeCaffeine c"
    unfolding activeCaffeine_def using c(1) p0 by (rule mult_nonneg_nonneg)
  have "caffeine c * (0.5 powr (caffeineTime c / halfLife c)) \<le> 10 * 1"
    using c p0 p1 by (intro mult_mono) simp_all
  then show "activeCaffeine c \<le> 10"
    by (simp add: activeCaffeine_def)
qed

lemma scale_bounds:
  fixes x k b :: real
  assumes "0 < x" "x \<le> b" "0 < k" "k \<le> 1"
  shows "0 < x * k" and "x * k \<le> b"
proof -
  show "0 < x * k" using assms by simp
  have "x * k \<le> x * 1" using assms by (intro mult_left_mono) simp_all
  with assms(2) show "x * k \<le> b" by linarith
qed

lemma good_getAgeProfile: "good_profile (getAgeProfile a)"
  using interpolate_n3_bounds[of a] interpolate_rem_bounds[of a] interpolate_n1_bounds[of a]
    interpolate_tst_bounds[of a] interpolate_waso_bounds[of a]
  by (simp add: good_profile_def getAgeProfile_def safety_normalization_def Let_def)

lemma good_scaled:
  assumes "good_profile p" "0 < k3" "k3 \<le> 1" "0 < kr" "kr \<le> 1" "0 \<le> d1" "0 \<le> dw" "0 \<le> dt"
    and "n3P q = n3P p * k3" "remP q = remP p * kr" "n1P q = n1P p + d1"
    and "wasoMins q = wasoMins p + dw" "tst q = tst p - dt"
  shows "good_profile q"
  using assms scale_bounds[of "n3P p" "0.25" k3] scale_bounds[of "remP p" "0.5" kr]
  by (simp add: good_profile_def)

lemma good_mod_blueLight:
  assumes "good_profile p"
  shows "good_profile (mod_blueLight c p)"
proof (cases "blueLight c")
  case True
  show ?thesis
    by (rule good_scaled[OF assms, where ?k3.0 = "0.85" and kr = "0.9" and ?d1.0 = "0.03" and dw = 0 and dt = 30])
       (simp_all add: mod_blueLight_def True)
next
  case False
  with assms show ?thesis by (simp add: mod_blueLight_def)
qed

lemma good_mod_caffeine:
  assumes "valid_config c" "good_profile p"
  shows "good_profile (mod_caffeine c p)"
proof (cases "activeCaffeine c > 0.1")
  case True
  show ?thesis
    by (rule good_scaled[OF assms(2), where ?k3.0 = "max 0.5 (1 - (activeCaffeine c * 0.15))" and kr = 1
          and ?d1.0 = "activeCaffeine c * 0.03" and dw = "activeCaffeine c * 15" and dt = "activeCaffeine c * 15"])
       (use True in \<open>simp_all add: mod_caffeine_def max_def\<close>)
next
  case False
  with assms show ?thesis by (simp add: mod_caffeine_def)
qed

lemma good_mod_alcohol:
  assumes "good_profile p"
  shows "good_profile (mod_alcohol c p)"
proof (cases "alcohol c > 0")
  case True
  show ?thesis
    by (rule good_scaled[OF assms, where ?k3.0 = "max 0.6 (1 - (alcohol c * 0.1))"
          and kr = "max 0.4 (1 - (alcohol c * 0.15))" and ?d1.0 = 0 and dw = "alcohol c * 25" and dt = 0])
       (use True in \<open>simp_all add: mod_alcohol_def max_def\<close>)
next
  case False
  with assms show ?thesis by (simp add: mod_alcohol_def)
qed

lemma good_mod_socialJetLag:
  assumes "good_profile p"
  shows "good_profile (mod_socialJetLag c p)"
proof (cases "socialJetLag c")
  case True
  show ?thesis
    by (rule good_scaled[OF assms, where ?k3.0 = "0.85" and kr = "0.8" and ?d1.0 = 0 and dw = 30 and dt = 60])
       (simp_all add: mod_socialJetLag_def True)
next
  case False
  with assms show ?thesis by (simp add: mod_socialJetLag_def)
qed

lemma good_mod_gender: "good_profile p \<Longrightarrow> good_profile (mod_gender c p)"
  by (simp add: mod_gender_def good_profile_def)

lemma good_mod_menopause:
  assumes "good_profile p"
  shows "good_profile (mod_menopause c p)"
proof (cases "isMenopausal c")
  case True
  show ?thesis
    by (rule good_scaled[OF assms, where ?k3.0 = "0.80" and kr = "0.9" and ?d1.0 = "0.05" and dw = 45 and dt = 0])
       (simp_all add: mod_menopause_def True)
next
  case False
  with assms show ?thesis by (simp add: mod_menopause_def)
qed

lemma good_pre_sdb: "valid_config c \<Longrightarrow> good_profile (pre_sdb c)"
  unfolding pre_sdb_def
  by (intro good_mod_menopause good_mod_gender good_mod_socialJetLag good_mod_alcohol
        good_mod_caffeine good_mod_blueLight good_getAgeProfile)

lemma good_mod_sdb:
  assumes "valid_config c" "good_profile p"
  shows "good_profile (mod_sdb c p)"
proof (cases "sdbSeverity c > 0")
  case True
  have s: "sdbSeverity c \<le> 10" using assms(1) by (simp add: valid_config_def)
  show ?thesis
    by (rule good_scaled[OF assms(2), where ?k3.0 = "1 - sdbSeverity c / 10 * 0.75"
          and kr = "1 - sdbSeverity c / 10 * 0.3" and ?d1.0 = "sdbSeverity c / 10 * 0.15"
          and dw = "sdbSeverity c / 10 * 80" and dt = "sdbSeverity c / 10 * 60"])
       (use True s in \<open>simp_all add: mod_sdb_def Let_def\<close>)
next
  case False
  with assms show ?thesis by (simp add: mod_sdb_def)
qed

lemma good_mod_nocturia: "good_profile p \<Longrightarrow> good_profile (mod_nocturia c p)"
  by (simp add: mod_nocturia_def good_profile_def)

lemma good_recalc_n2:
  assumes "good_profile p"
  shows "good_profile (recalc_n2 p)"
proof (cases "n3P p + remP p + n1P p > 0.95")
  case True
  define k where "k = 0.95 / (n3P p + remP p + n1P p)"
  have k: "0 < k" "k \<le> 1" using True by (simp_all add: k_def)
  have n1: "0 \<le> n1P p * k" using assms k by (simp add: good_profile_def)
  have f: "n3P (recalc_n2 p) = n3P p * k" "remP (recalc_n2 p) = remP p * k"
    "n1P (recalc_n2 p) = n1P p * k" "wasoMins (recalc_n2 p) = wasoMins p" "tst (recalc_n2 p) = tst p"
    using True by (simp_all add: recalc_n2_def Let_def k_def)
  from assms k scale_bounds[of "n3P p" "0.25" k] scale_bounds[of "remP p" "0.5" k] n1
  show ?thesis unfolding good_profile_def f by simp
next
  case False
  with assms show ?thesis by (simp add: recalc_n2_def Let_def good_profile_def)
qed

lemma good_adjusted: "valid_config c \<Longrightarrow> good_profile (adjusted c)"
  unfolding adjusted_def
  by (intro good_recalc_n2 good_mod_nocturia good_mod_sdb good_pre_sdb)

subsection \<open>One cycle\<close>

lemma mult_div_cancel_self:
  fixes x k :: real
  shows "x \<noteq> 0 \<Longrightarrow> x * (k / x) = k"
  by simp

lemma local_normalize_over:
  assumes "1 < a + b"
  obtains k where "0 < k" "k \<le> 1" "(a + b) * k = 0.9" "local_normalize (a, b) = (a * k, b * k, 0.1)"
proof
  show "0 < 0.9 / (a + b)" "0.9 / (a + b) \<le> 1"
    using assms by simp_all
  have "a + b \<noteq> 0" using assms by simp
  then show "(a + b) * (0.9 / (a + b)) = 0.9"
    by (rule mult_div_cancel_self)
  show "local_normalize (a, b) = (a * (0.9 / (a + b)), b * (0.9 / (a + b)), 0.1)"
    using assms by (simp add: local_normalize_def Let_def)
qed

lemma local_normalize_under:
  "a + b \<le> 1 \<Longrightarrow> local_normalize (a, b) = (a, b, 1 - (a + b))"
  by (simp add: local_normalize_def Let_def)

lemma local_normalize_sum:
  assumes "local_normalize (a, b) = (a', b', n2')"
  shows "a' + b' + n2' = 1"
proof (cases "1 < a + b")
  case True
  from local_normalize_over[OF True] obtain k where
    k: "(a + b) * k = 0.9" "local_normalize (a, b) = (a * k, b * k, 0.1)" by blast
  from k(2) assms have "a' = a * k" "b' = b * k" "n2' = 0.1" by simp_all
  moreover have "a * k + b * k + 0.1 = 1" using k(1) by (simp add: distrib_right)
  ultimately show ?thesis by simp
next
  case False
  with assms local_normalize_under[of a b] show ?thesis by simp
qed

lemma local_normalize_n3:
  assumes "local_normalize (a, b) = (a', b', n2')" "a \<le> 0"
  shows "a \<le> a' \<and> a' \<le> 0"
proof (cases "1 < a + b")
  case True
  from local_normalize_over[OF True] obtain k where
    k: "0 < k" "k \<le> 1" "local_normalize (a, b) = (a * k, b * k, 0.1)" by blast
  from k(3) assms have a': "a' = a * k" by simp
  have "a * 1 \<le> a * k" using assms(2) k by (intro mult_left_mono_neg) simp_all
  moreover have "a * k \<le> 0" using assms(2) k by (simp add: mult_nonpos_nonneg)
  ultimately show ?thesis using a' by simp
next
  case False
  with assms local_normalize_under[of a b] show ?thesis by simp
qed

lemma local_normalize_n3_pos:
  assumes "local_normalize (a, b) = (a', b', n2')" "0 \<le> a"
  shows "0 \<le> a'"
proof (cases "1 < a + b")
  case True
  from local_normalize_over[OF True] obtain k where
    k: "0 < k" "local_normalize (a, b) = (a * k, b * k, 0.1)" by blast
  from k(2) assms have "a' = a * k" by simp
  with assms(2) k(1) show ?thesis by simp
next
  case False
  with assms local_normalize_under[of a b] show ?thesis by simp
qed


lemma localN3_init_late: "0 \<le> n3P p \<Longrightarrow> 7 \<le> ci \<Longrightarrow> localN3_init p ci \<le> 0"
proof -
  assume a: "0 \<le> n3P p" "7 \<le> ci"
  have "1 - real ci * 0.15 \<le> 0" using a(2) by simp
  with a(1) have "n3P p * (1 - real ci * 0.15) \<le> 0" by (rule mult_nonneg_nonpos)
  then have "n3P p * (1 - real ci * 0.15) * 2 \<le> 0" by (rule mult_nonpos_nonneg) simp
  then show ?thesis by (simp only: localN3_init_def)
qed

lemma localN3_init_early: "0 \<le> n3P p \<Longrightarrow> ci < 7 \<Longrightarrow> 0 \<le> localN3_init p ci"
proof -
  assume a: "0 \<le> n3P p" "ci < 7"
  have "0 \<le> 1 - real ci * 0.15" using a(2) by simp
  with a(1) have "0 \<le> n3P p * (1 - real ci * 0.15)" by (rule mult_nonneg_nonneg)
  then have "0 \<le> n3P p * (1 - real ci * 0.15) * 2" by (rule mult_nonneg_nonneg) simp
  then show ?thesis by (simp only: localN3_init_def)
qed

lemma localN3_init_lower:
  assumes "0 \<le> n3P p" "n3P p \<le> 0.25" "7 \<le> ci" "ci \<le> 17"
  shows "- 0.775 \<le> localN3_init p ci"
proof -
  define y where "y = real ci * 0.15 - 1"
  have y: "0 \<le> y" "y \<le> 1.55" using assms(3,4) by (simp_all add: y_def)
  have "n3P p * y \<le> 0.25 * 1.55" using assms(1,2) y by (intro mult_mono) simp_all
  then have "- 0.775 \<le> (n3P p * (- y)) * 2" by simp
  moreover have "localN3_init p ci = (n3P p * (- y)) * 2" by (simp add: localN3_init_def y_def)
  ultimately show ?thesis by simp
qed


lemma local_raw_cases:
  obtains k j where "0 < k" "0 < j"
    "local_raw c p ci = (localN3_init p ci * k, localREM_init p ci * j)" "2 \<le> ci \<longrightarrow> k \<le> 1"
proof (cases "alcohol c > 0")
  case False
  show ?thesis
    by (rule that[of 1 1]) (use False in \<open>simp_all add: local_raw_def Let_def\<close>)
next
  case True
  show ?thesis
  proof (cases "ci < 2")
    case early: True
    show ?thesis
      by (rule that[of "1 + alcohol c * 0.1" "max 0.1 (1 - (alcohol c * 0.3))"])
         (use True early in \<open>simp_all add: local_raw_def Let_def max_def\<close>)
  next
    case late: False
    show ?thesis
      by (rule that[of "0.5" "1 + alcohol c * 0.2"])
         (use True late in \<open>simp_all add: local_raw_def Let_def\<close>)
  qed
qed

lemma skipped_n3_le: "skipped_n3 c p ci \<le> 0.01"
  by (cases "local_fractions c p ci") (simp add: skipped_n3_def)

lemma skipped_n3_late:
  assumes "0 \<le> n3P p" "7 \<le> ci"
  shows "skipped_n3 c p ci \<le> 0"
proof -
  obtain k j where r: "0 < k" "local_raw c p ci = (localN3_init p ci * k, localREM_init p ci * j)"
    by (rule local_raw_cases[of c p ci]) blast
  obtain a' b' n2' where
    n: "local_normalize (localN3_init p ci * k, localREM_init p ci * j) = (a', b', n2')"
    by (cases "local_normalize (localN3_init p ci * k, localREM_init p ci * j)")
  have "localN3_init p ci * k \<le> 0"
    using localN3_init_late[OF assms] r(1) by (simp add: mult_nonpos_nonneg)
  from local_normalize_n3[OF n this] have "a' \<le> 0" by simp
  then show ?thesis using r(2) n by (simp add: skipped_n3_def local_fractions_def)
qed

lemma skipped_n3_lower:
  assumes "0 \<le> n3P p" "n3P p \<le> 0.25" "ci \<le> 17"
  shows "- 0.775 \<le> skipped_n3 c p ci"
proof -
  obtain k j where r: "0 < k" "2 \<le> ci \<longrightarrow> k \<le> 1"
      "local_raw c p ci = (localN3_init p ci * k, localREM_init p ci * j)"
    by (rule local_raw_cases[of c p ci]) blast
  obtain a' b' n2' where
    n: "local_normalize (localN3_init p ci * k, localREM_init p ci * j) = (a', b', n2')"
    by (cases "local_normalize (localN3_init p ci * k, localREM_init p ci * j)")
  have s: "skipped_n3 c p ci = (if a' > 0.01 then 0 else a')"
    using r(3) n by (simp add: skipped_n3_def local_fractions_def)
  show ?thesis
  proof (cases "7 \<le> ci")
    case True
    define x where "x = localN3_init p ci"
    have x: "x \<le> 0" "- 0.775 \<le> x"
      using localN3_init_late[OF assms(1) True] localN3_init_lower[OF assms(1,2) True assms(3)]
      by (simp_all add: x_def)
    have k1: "k \<le> 1" using r(2) True by simp
    have "x * 1 \<le> x * k" using x(1) r(1) k1 by (intro mult_left_mono_neg) simp_all
    then have lo: "- 0.775 \<le> x * k" using x(2) by simp
    have "x * k \<le> 0" using x(1) r(1) by (simp add: mult_nonpos_nonneg)
    from local_normalize_n3[OF n[folded x_def] this] lo have "- 0.775 \<le> a'" by simp
    then show ?thesis by (simp add: s)
  next
    case False
    then have "0 \<le> localN3_init p ci" using localN3_init_early[OF assms(1)] by simp
    then have "0 \<le> localN3_init p ci * k" using r(1) by simp
    from local_normalize_n3_pos[OF n this] show ?thesis by (simp add: s)
  qed
qed


lemma emit_sleep_fields [simp]:
  "accumulatedSleep (emit_sleep st d s) = accumulatedSleep s + d"
  "currentTime (emit_sleep st d s) = currentTime s + d"
  "cycleIndex (emit_sleep st d s) = cycleIndex s"
  "wakeChunkIndex (emit_sleep st d s) = wakeChunkIndex s"
  by (simp_all add: emit_sleep_def)

lemma emit_wake_fields [simp]:
  "accumulatedSleep (emit_wake d s) = accumulatedSleep s"
  "currentTime (emit_wake d s) = currentTime s + d"
  "cycleIndex (emit_wake d s) = cycleIndex s"
  "wakeChunkIndex (emit_wake d s) = wakeChunkIndex s"
  by (simp_all add: emit_wake_def)

lemma cycle_body_index [simp]:
  "cycleIndex (cycle_body c p s) = cycleIndex s"
  "wakeChunkIndex (cycle_body c p s) = wakeChunkIndex s"
  by (cases "local_fractions c p (cycleIndex s)"; simp add: cycle_body_def Let_def)+

lemma cycle_body_time:
  "currentTime (cycle_body c p s) - accumulatedSleep (cycle_body c p s)
     = currentTime s - accumulatedSleep s"
  by (cases "local_fractions c p (cycleIndex s)") (simp add: cycle_body_def Let_def)

lemma cycle_body_sleep:
  "accumulatedSleep (cycle_body c p s)
     = accumulatedSleep s
       + min 90 (tst p - accumulatedSleep s) * (1 - skipped_n3 c p (cycleIndex s))
       + transN1 c (min 90 (tst p - accumulatedSleep s))"
proof -
  obtain a b n2 where f: "local_fractions c p (cycleIndex s) = (a, b, n2)"
    by (cases "local_fractions c p (cycleIndex s)")
  then have "a + b + n2 = 1"
    unfolding local_fractions_def
    by (cases "local_raw c p (cycleIndex s)") (auto dest: local_normalize_sum)
  then have n2: "n2 = 1 - a - b" by simp
  define x where "x = min 90 (tst p - accumulatedSleep s)"
  have e: "accumulatedSleep (cycle_body c p s)
          = accumulatedSleep s + x * (n2 * 0.4) + (if a > 0.01 then x * a else 0)
            + x * (n2 * 0.6) + x * b + transN1 c x"
    using f unfolding x_def by (simp add: cycle_body_def Let_def transN1_def)
  have m: "x * (n2 * 0.4) + x * (n2 * 0.6) + x * b = x - x * a"
    by (simp add: n2 field_simps)
  have "accumulatedSleep (cycle_body c p s)
          = accumulatedSleep s + (x - (if a > 0.01 then 0 else x * a)) + transN1 c x"
  proof (cases "a > 0.01")
    case True
    then have i: "(if a > 0.01 then x * a else 0) = x * a" "(if a > 0.01 then 0 else x * a) = 0"
      by simp_all
    show ?thesis unfolding i using e[unfolded i] m by linarith
  next
    case False
    then have i: "(if a > 0.01 then x * a else 0) = 0" "(if a > 0.01 then 0 else x * a) = x * a"
      by simp_all
    show ?thesis unfolding i using e[unfolded i] m by linarith
  qed
  moreover have "x * (1 - skipped_n3 c p (cycleIndex s)) = x - (if a > 0.01 then 0 else x * a)"
    using f by (simp add: skipped_n3_def right_diff_distrib)
  ultimately show ?thesis by (simp add: x_def)
qed

lemma inject_wake_sleep [simp]: "accumulatedSleep (inject_wake wcd idxs s) = accumulatedSleep s"
  by (rule inject_wake_preserves[where P = "\<lambda>t. accumulatedSleep t = accumulatedSleep s"]) simp_all

lemma inject_wake_index [simp]: "cycleIndex (inject_wake wcd idxs s) = cycleIndex s"
  by (rule inject_wake_preserves[where P = "\<lambda>t. cycleIndex t = cycleIndex s"]) simp_all

lemma cycle_step_sleep:
  "accumulatedSleep (cycle_step c p wcd idxs s)
     = accumulatedSleep s
       + min 90 (tst p - accumulatedSleep s) * (1 - skipped_n3 c p (cycleIndex s))
       + transN1 c (min 90 (tst p - accumulatedSleep s))"
  by (simp add: cycle_step_def Let_def cycle_body_sleep)

lemma cycle_step_index [simp]: "cycleIndex (cycle_step c p wcd idxs s) = cycleIndex s + 1"
  by (simp add: cycle_step_def Let_def)

lemma transN1_bounds: "0 \<le> transN1 c x" "transN1 c x \<le> 4"
  by (simp_all add: transN1_def)

lemma gain_bounds:
  fixes x sk lo hi :: real
  assumes "0 < x" "lo \<le> sk" "sk \<le> hi"
  shows "x * (1 - hi) \<le> x * (1 - sk)" "x * (1 - sk) \<le> x * (1 - lo)"
  using assms by (simp_all add: mult_left_mono)

lemma cycle_step_gain:
  assumes "accumulatedSleep s < tst p"
  obtains x sk t where "0 < x" "x \<le> 90" "x \<le> tst p - accumulatedSleep s"
    "x = 90 \<or> x = tst p - accumulatedSleep s"
    "sk = skipped_n3 c p (cycleIndex s)" "0 \<le> t" "t \<le> 4"
    "x * 0.99 \<le> x * (1 - sk)"
    "accumulatedSleep (cycle_step c p wcd idxs s) = accumulatedSleep s + x * (1 - sk) + t"
proof -
  define x where "x = min 90 (tst p - accumulatedSleep s)"
  have x: "0 < x" "x \<le> 90" "x \<le> tst p - accumulatedSleep s"
    "x = 90 \<or> x = tst p - accumulatedSleep s"
    using assms by (auto simp: x_def min_def)
  have "x * (1 - 0.01) \<le> x * (1 - skipped_n3 c p (cycleIndex s))"
    by (rule gain_bounds(1)[OF x(1) order_refl skipped_n3_le])
  then have g: "x * 0.99 \<le> x * (1 - skipped_n3 c p (cycleIndex s))" by simp
  show ?thesis
    by (rule that[of x "skipped_n3 c p (cycleIndex s)" "transN1 c x"])
       (use x g transN1_bounds[of c x] in \<open>simp_all add: cycle_step_sleep x_def\<close>)
qed

lemma cycle_step_grows:
  assumes "accumulatedSleep s < tst p"
  shows "accumulatedSleep s < accumulatedSleep (cycle_step c p wcd idxs s)"
proof -
  from cycle_step_gain[OF assms, of c wcd idxs] obtain x sk t where
    g: "0 < x" "0 \<le> t" "x * 0.99 \<le> x * (1 - sk)"
      "accumulatedSleep (cycle_step c p wcd idxs s) = accumulatedSleep s + x * (1 - sk) + t"
    by blast
  have "0 < x * 0.99" using g(1) by simp
  with g show ?thesis by linarith
qed

lemma cycle_step_grows_late:
  assumes "accumulatedSleep s < tst p" "0 \<le> n3P p" "7 \<le> cycleIndex s"
  shows "accumulatedSleep s + min 90 (tst p - accumulatedSleep s)
           \<le> accumulatedSleep (cycle_step c p wcd idxs s)"
proof -
  from cycle_step_gain[OF assms(1), of c wcd idxs] obtain x sk t where
    g: "0 < x" "x \<le> tst p - accumulatedSleep s" "x = 90 \<or> x = tst p - accumulatedSleep s" "x \<le> 90"
      "sk = skipped_n3 c p (cycleIndex s)" "0 \<le> t"
      "accumulatedSleep (cycle_step c p wcd idxs s) = accumulatedSleep s + x * (1 - sk) + t"
    by blast
  have "sk \<le> 0" using skipped_n3_late[OF assms(2,3)] g(5) by simp
  from gain_bounds(1)[OF g(1) order_refl this] have "x \<le> x * (1 - sk)" by simp
  moreover have "min 90 (tst p - accumulatedSleep s) = x" using g(2,3,4) by (auto simp: min_def)
  ultimately show ?thesis using g(6,7) by linarith
qed

subsection \<open>Termination of the cycle loop\<close>

lemma ceiling_step:
  fixes r r' :: real
  assumes "0 < r" "r' \<le> r - min 90 r"
  shows "nat \<lceil>r' / 90\<rceil> < nat \<lceil>r / 90\<rceil>"
proof -
  have pos: "0 < \<lceil>r / 90\<rceil>" using assms(1) by simp
  have "\<lceil>r' / 90\<rceil> \<le> \<lceil>r / 90\<rceil> - 1"
  proof (cases "r \<le> 90")
    case True
    then have "r' / 90 \<le> 0" using assms(2) by simp
    then have "\<lceil>r' / 90\<rceil> \<le> 0" by (simp only: ceiling_le_zero)
    with pos show ?thesis by linarith
  next
    case False
    then have "r' / 90 \<le> r / 90 - 1" using assms(2) by simp
    then have "\<lceil>r' / 90\<rceil> \<le> \<lceil>r / 90 - 1\<rceil>" by (rule ceiling_mono)
    then show ?thesis by simp
  qed
  with pos show ?thesis by linarith
qed

lemma loop_measure_decreases:
  assumes "0 \<le> n3P p" "accumulatedSleep s < tst p"
  shows "loop_measure p (cycle_step c p wcd idxs s) < loop_measure p s"
proof (cases "cycleIndex s < 7")
  case True
  have "accumulatedSleep s < accumulatedSleep (cycle_step c p wcd idxs s)"
    by (rule cycle_step_grows[OF assms(2)])
  then have "(tst p - accumulatedSleep (cycle_step c p wcd idxs s)) / 90
               \<le> (tst p - accumulatedSleep s) / 90" by simp
  then have "nat \<lceil>(tst p - accumulatedSleep (cycle_step c p wcd idxs s)) / 90\<rceil>
               \<le> nat \<lceil>(tst p - accumulatedSleep s) / 90\<rceil>"
    by (intro nat_mono ceiling_mono)
  moreover have "cycleIndex (cycle_step c p wcd idxs s) = cycleIndex s + 1" by simp
  ultimately show ?thesis unfolding loop_measure_def using True by arith
next
  case False
  then have late: "7 \<le> cycleIndex s" by simp
  have "tst p - accumulatedSleep (cycle_step c p wcd idxs s)
          \<le> (tst p - accumulatedSleep s) - min 90 (tst p - accumulatedSleep s)"
    using cycle_step_grows_late[OF assms(2,1) late, of c wcd idxs] by linarith
  moreover have "0 < tst p - accumulatedSleep s" using assms(2) by simp
  ultimately have "nat \<lceil>(tst p - accumulatedSleep (cycle_step c p wcd idxs s)) / 90\<rceil>
               < nat \<lceil>(tst p - accumulatedSleep s) / 90\<rceil>"
    by (rule ceiling_step[rotated])
  moreover have "cycleIndex (cycle_step c p wcd idxs s) = cycleIndex s + 1" by simp
  ultimately show ?thesis unfolding loop_measure_def using late by arith
qed

lemma cycle_loop_terminates:
  assumes "0 \<le> n3P p"
  shows "\<exists>s'. cycle_loop c p wcd idxs s = Some s'"
proof (induction "loop_measure p s" arbitrary: s rule: less_induct)
  case less
  show ?case
  proof (cases "accumulatedSleep s < tst p")
    case True
    from less[OF loop_measure_decreases[OF assms True]]
    obtain s' where "cycle_loop c p wcd idxs (cycle_step c p wcd idxs s) = Some s'" by blast
    with True have "cycle_loop c p wcd idxs s = Some s'" by (subst cycle_loop.simps) simp
    then show ?thesis by blast
  next
    case False
    then have "cycle_loop c p wcd idxs s = Some s" by (subst cycle_loop.simps) simp
    then show ?thesis by blast
  qed
qed

subsection \<open>Invariants of the cycle loop\<close>

lemma time_inv_initial: "time_inv (latency c) wcd (initial_state c)"
  by (simp add: time_inv_def initial_state_def)

lemma time_inv_body: "time_inv lat wcd s \<Longrightarrow> time_inv lat wcd (cycle_body c p s)"
  using cycle_body_time[of c p s] by (simp add: time_inv_def)

lemma time_inv_inject: "time_inv lat wcd s \<Longrightarrow> time_inv lat wcd (inject_wake wcd idxs s)"
  by (rule inject_wake_preserves) (simp_all add: time_inv_def algebra_simps)

lemma time_inv_step: "time_inv lat wcd s \<Longrightarrow> time_inv lat wcd (cycle_step c p wcd idxs s)"
  using time_inv_inject[OF time_inv_body, of lat wcd s idxs c p]
  by (simp add: cycle_step_def Let_def time_inv_def)

lemma sleep_inv_step:
  assumes p: "0 \<le> n3P p" "n3P p \<le> 0.25" "tst p \<le> 960"
    and inv: "sleep_inv p s" and run: "accumulatedSleep s < tst p"
  shows "sleep_inv p (cycle_step c p wcd idxs s)"
proof -
  let ?s' = "cycle_step c p wcd idxs s"
  from cycle_step_gain[OF run, of c wcd idxs] obtain x sk t where
    g: "0 < x" "x \<le> 90" "x \<le> tst p - accumulatedSleep s" "x = 90 \<or> x = tst p - accumulatedSleep s"
      "sk = skipped_n3 c p (cycleIndex s)" "0 \<le> t" "t \<le> 4" "x * 0.99 \<le> x * (1 - sk)"
      "accumulatedSleep ?s' = accumulatedSleep s + x * (1 - sk) + t"
    by blast
  from inv have i: "0 \<le> accumulatedSleep s" "min (tst p) (90 * (real (cycleIndex s) - 7)) \<le> accumulatedSleep s"
    by (simp_all add: sleep_inv_def)
  from i(2) run have lo: "90 * (real (cycleIndex s) - 7) \<le> accumulatedSleep s"
    by (simp add: min_def split: if_splits)
  with run p(3) have "real (cycleIndex s) < 18" by simp
  then have ci: "cycleIndex s \<le> 17" by simp
  have "- 0.775 \<le> sk" using skipped_n3_lower[OF p(1,2) ci, of c] g(5) by simp
  from gain_bounds(2)[OF g(1) this order_refl] have "x * (1 - sk) \<le> x * 1.775" by simp
  moreover have "x * 1.775 \<le> x + 70" using g(2) by simp
  ultimately have up: "x * (1 - sk) \<le> x + 70" by (rule order_trans)
  have a: "0 \<le> accumulatedSleep ?s'"
    using g(1,6,8,9) i(1) by (simp add: add_nonneg_nonneg)
  have b: "accumulatedSleep ?s' < tst p + 90"
    using g(2,3,7,9) up by linarith
  have c: "min (tst p) (90 * (real (cycleIndex ?s') - 7)) \<le> accumulatedSleep ?s'"
  proof (cases "cycleIndex s < 7")
    case True
    then have "real (cycleIndex s) + 1 \<le> 7" by simp
    then have "90 * (real (cycleIndex ?s') - 7) \<le> 0" by simp
    with a show ?thesis by (simp add: min_def)
  next
    case False
    then have late: "7 \<le> cycleIndex s" by simp
    have grow: "accumulatedSleep s + min 90 (tst p - accumulatedSleep s) \<le> accumulatedSleep ?s'"
      by (rule cycle_step_grows_late[OF run p(1) late])
    show ?thesis
    proof (cases "tst p - accumulatedSleep s \<le> 90")
      case True
      with grow have "tst p \<le> accumulatedSleep ?s'" by (simp add: min_def)
      then show ?thesis by (simp add: min_def)
    next
      case False
      with grow have "accumulatedSleep s + 90 \<le> accumulatedSleep ?s'" by (simp add: min_def)
      with lo have "90 * (real (cycleIndex s) + 1 - 7) \<le> accumulatedSleep ?s'" by simp
      then show ?thesis by (simp add: min_def)
    qed
  qed
  from a b c show ?thesis by (simp add: sleep_inv_def)
qed

subsection \<open>The whole run\<close>

lemma latency_ge:
  assumes "valid_config c"
  shows "5 \<le> latency c"
proof -
  define l0 where "l0 = 10 + max 0 ((age c - 20) * 0.25) + (activeCaffeine c * 20) + blueLightLatency c"
  have "0 \<le> activeCaffeine c * 20" using activeCaffeine_bounds(1)[OF assms] by simp
  moreover have "0 \<le> blueLightLatency c" by (simp add: blueLightLatency_def)
  moreover have "0 \<le> max 0 ((age c - 20) * 0.25)" by simp
  ultimately have l0: "10 \<le> l0" unfolding l0_def by linarith
  define l1 where "l1 = (if alcohol c > 0 then max 5 (l0 - (alcohol c * 5)) else l0)"
  have l1: "5 \<le> l1" using l0 by (simp add: l1_def)
  have "latency c = (if isMenopausal c then l1 + 15 else l1)"
    by (simp add: latency_def Let_def l1_def l0_def)
  with l1 show ?thesis by simp
qed

lemma initialN1_bounds:
  assumes "valid_config c"
  shows "5 \<le> initialN1 c" and "initialN1 c \<le> 10 + 5 * activeCaffeine c"
  using activeCaffeine_bounds(1)[OF assms] by (simp_all add: initialN1_def)

lemma tst_getAgeProfile: "tst (getAgeProfile a) = interpolate a tstKeyframes"
  by (cases "safety_normalization (interpolate a n3Keyframes) (interpolate a remKeyframes)
               (interpolate a n1Keyframes)") (simp add: getAgeProfile_def)

lemma tst_mods:
  "tst p - 30 \<le> tst (mod_blueLight c p)"
  "0 \<le> activeCaffeine c \<Longrightarrow> tst p - 15 * activeCaffeine c \<le> tst (mod_caffeine c p)"
  "tst (mod_alcohol c p) = tst p"
  "tst p - 60 \<le> tst (mod_socialJetLag c p)"
  "tst (mod_gender c p) = tst p"
  "tst (mod_menopause c p) = tst p"
  "0 \<le> sdbSeverity c \<Longrightarrow> sdbSeverity c \<le> 10 \<Longrightarrow> tst p - 60 \<le> tst (mod_sdb c p)"
  "tst (mod_nocturia c p) = tst p"
  "tst (recalc_n2 p) = tst p"
  by (simp_all add: mod_blueLight_def mod_caffeine_def mod_alcohol_def mod_socialJetLag_def
        mod_gender_def mod_menopause_def mod_sdb_def mod_nocturia_def recalc_n2_def Let_def)

lemma tst_adjusted_lower:
  assumes "valid_config c"
  shows "150 - 15 * activeCaffeine c \<le> tst (adjusted c)"
proof -
  have s: "0 \<le> sdbSeverity c" "sdbSeverity c \<le> 10" using assms by (simp_all add: valid_config_def)
  define p0 where "p0 = getAgeProfile (age c)"
  define p1 where "p1 = mod_blueLight c p0"
  define p2 where "p2 = mod_caffeine c p1"
  define p3 where "p3 = mod_socialJetLag c (mod_alcohol c p2)"
  have "300 \<le> tst p0" using interpolate_tst_bounds[of "age c"] by (simp add: p0_def tst_getAgeProfile)
  moreover have "tst p0 - 30 \<le> tst p1" unfolding p1_def by (rule tst_mods)
  moreover have "tst p1 - 15 * activeCaffeine c \<le> tst p2"
    unfolding p2_def by (rule tst_mods(2)[OF activeCaffeine_bounds(1)[OF assms]])
  moreover have "tst p2 - 60 \<le> tst p3"
    unfolding p3_def using tst_mods(4)[of "mod_alcohol c p2" c] by (simp add: tst_mods)
  moreover have "pre_sdb c = mod_menopause c (mod_gender c p3)"
    by (simp add: pre_sdb_def p3_def p2_def p1_def p0_def)
  then have "tst (pre_sdb c) = tst p3" by (simp add: tst_mods)
  moreover have "tst (pre_sdb c) - 60 \<le> tst (adjusted c)"
    using tst_mods(7)[OF s, of "pre_sdb c"] by (simp add: adjusted_def tst_mods)
  ultimately show ?thesis by linarith
qed

lemma numWakeChunks_pos: "0 < numWakeChunks p"
  by (simp add: numWakeChunks_def)

lemma wakeChunkDuration_nonneg: "0 \<le> wasoMins p \<Longrightarrow> 0 \<le> wakeChunkDuration p"
  by (simp add: wakeChunkDuration_def)

lemma sleep_inv_initial:
  assumes "valid_config c"
  shows "sleep_inv (adjusted c) (initial_state c)"
proof -
  have "initialN1 c < tst (adjusted c) + 90"
    using initialN1_bounds(2)[OF assms] tst_adjusted_lower[OF assms] activeCaffeine_bounds(2)[OF assms]
    by linarith
  moreover have "0 \<le> initialN1 c" using initialN1_bounds(1)[OF assms] by simp
  ultimately show ?thesis
    by (simp add: sleep_inv_def initial_state_def min_def)
qed

lemma generate_run:
  assumes "valid_config c"
  obtains s where
    "cycle_loop c (adjusted c) (wakeChunkDuration (adjusted c))
       (wakeInsertionIndices (adjusted c) rnd) (initial_state c) = Some s"
    "generate c rnd = Some (finish c (adjusted c) rnd s)"
    "run_inv c s" "tst (adjusted c) \<le> accumulatedSleep s"
proof -
  let ?p = "adjusted c" and ?w = "wakeChunkDuration (adjusted c)"
  let ?i = "wakeInsertionIndices (adjusted c) rnd"
  have g: "good_profile ?p" by (rule good_adjusted[OF assms])
  then have p: "0 \<le> n3P ?p" "n3P ?p \<le> 0.25" "tst ?p \<le> 960"
    by (simp_all add: good_profile_def)
  from cycle_loop_terminates[OF p(1)] obtain s where
    run: "cycle_loop c ?p ?w ?i (initial_state c) = Some s" by blast
  have init: "run_inv c (initial_state c)"
    unfolding run_inv_def
    using wf_initial time_inv_initial sleep_inv_initial[OF assms]
    by (simp add: initial_state_def)
  have step: "run_inv c (cycle_step c ?p ?w ?i t)" if "run_inv c t" "accumulatedSleep t < tst ?p" for t
    using that wf_cycle_step time_inv_step sleep_inv_step[OF p] cycle_step_grows[OF that(2), of c ?w ?i]
    unfolding run_inv_def by fastforce
  from cycle_loop_invariant[of c ?p ?w ?i "initial_state c" s "run_inv c", OF run init step]
  have fin: "run_inv c s" "tst ?p \<le> accumulatedSleep s" by simp_all
  show ?thesis
    by (rule that[OF run _ fin]) (simp add: generate_def Let_def run)
qed

lemma finish_fields [simp]:
  "res_blocks (finish c p rnd s) = map (\<lambda>b. b\<lparr>start := start b + 240 + startTimeOffset c\<rparr>) (blocks s)"
  "st_tst (res_stats (finish c p rnd s)) = actualTST (blocks s)"
  "st_tib (res_stats (finish c p rnd s)) = currentTime s"
  "st_sleepEfficiency (res_stats (finish c p rnd s)) = (actualTST (blocks s) / currentTime s) * 100"
  "st_n3P (res_stats (finish c p rnd s)) = n3P p"
  "st_wasoMins (res_stats (finish c p rnd s)) = wasoMins p"
  "st_latency (res_stats (finish c p rnd s)) = latency c"
  "pa_startTimeOffset (res_params (finish c p rnd s)) = startTimeOffset c"
  "pa_tst (res_params (finish c p rnd s)) = actualTST (blocks s)"
  "pa_tib (res_params (finish c p rnd s)) = currentTime s"
  by (simp_all add: finish_def Let_def)

lemma shifted_durations:
  "map duration (map (\<lambda>b. b\<lparr>start := f b\<rparr>) bs) = map duration bs"
  by (induction bs) simp_all

lemma shifted_sleep:
  "map duration (filter (\<lambda>b. stage b \<noteq> WAKE) (map (\<lambda>b. b\<lparr>start := f b\<rparr>) bs))
     = map duration (filter (\<lambda>b. stage b \<noteq> WAKE) bs)"
  by (induction bs) simp_all

lemma run_inv_times:
  assumes "valid_config c" "run_inv c s"
  shows "0 < accumulatedSleep s" "accumulatedSleep s \<le> currentTime s" "0 < currentTime s"
proof -
  have w: "0 \<le> wakeChunkDuration (adjusted c)"
    using good_adjusted[OF assms(1)] by (simp add: good_profile_def wakeChunkDuration_nonneg)
  have t: "currentTime s = accumulatedSleep s + latency c
              + wakeChunkDuration (adjusted c) * real (wakeChunkIndex s)"
    using assms(2) by (simp add: run_inv_def time_inv_def)
  have "0 \<le> wakeChunkDuration (adjusted c) * real (wakeChunkIndex s)"
    using w by simp
  with t latency_ge[OF assms(1)] show "accumulatedSleep s \<le> currentTime s" by linarith
  moreover show "0 < accumulatedSleep s"
    using assms(2) initialN1_bounds(1)[OF assms(1)] by (simp add: run_inv_def)
  ultimately show "0 < currentTime s" by linarith
qed

lemma valid_example_config: "valid_config example_config"
  by (simp add: valid_config_def example_config_def)


lemma activeCaffeine_example [simp]: "activeCaffeine example_config = 0"
  by (simp add: activeCaffeine_def example_config_def)

lemma getAgeProfile_29:
  "getAgeProfile 29 = \<lparr>tst = 456, n3P = 1/5, remP = 1327/5500, n1P = 1/20, n2P = 1399/2750, wasoMins = 39/2\<rparr>"
  by (simp add: getAgeProfile_def safety_normalization_def Let_def interpolate_def
        tstKeyframes_def n3Keyframes_def remKeyframes_def n1Keyframes_def wasoKeyframes_def)

lemma adjusted_example:
  "adjusted example_config
     = \<lparr>tst = 456, n3P = 1/5, remP = 1327/5500, n1P = 1/20, n2P = 1399/2750, wasoMins = 39/2\<rparr>"
  by (simp add: adjusted_def pre_sdb_def mod_blueLight_def mod_caffeine_def mod_alcohol_def
        mod_socialJetLag_def mod_gender_def mod_menopause_def mod_sdb_def mod_nocturia_def
        recalc_n2_def Let_def getAgeProfile_29 example_config_def activeCaffeine_def)

lemma numWakeChunks_example: "numWakeChunks (adjusted example_config) = 1"
  by (simp add: adjusted_example numWakeChunks_def)

lemma initialN1_example: "initialN1 example_config = 5"
  by (simp add: initialN1_def) (simp add: example_config_def)

lemma wakeInsertionIndices_cong:
  assumes "\<forall>k<numWakeChunks p. rnd1 k = rnd2 k"
  shows "wakeInsertionIndices p rnd1 = wakeInsertionIndices p rnd2"
proof -
  have "map (\<lambda>k. \<lfloor>rnd1 k * real_of_int (estCycles p)\<rfloor>) [0..<numWakeChunks p]
          = map (\<lambda>k. \<lfloor>rnd2 k * real_of_int (estCycles p)\<rfloor>) [0..<numWakeChunks p]"
    using assms by (intro map_cong) simp_all
  then show ?thesis by (simp only: wakeInsertionIndices_def)
qed

lemma short_night_fields [simp]:
  "age short_night_config = 95" "gender short_night_config = ''female''"
  "alcohol short_night_config = 0" "sdbSeverity short_night_config = 10"
  "nocturia short_night_config = 0" "socialJetLag short_night_config"
  "blueLight short_night_config" "\<not> isMenopausal short_night_config"
  by (simp_all add: short_night_config_def)

lemma activeCaffeine_short [simp]: "activeCaffeine short_night_config = 10"
  by (simp add: activeCaffeine_def short_night_config_def)

lemma tst_adjusted_short: "tst (adjusted short_night_config) = 0"
  by (simp add: adjusted_def pre_sdb_def tst_mods)
     (simp add: mod_blueLight_def mod_caffeine_def mod_alcohol_def
        mod_socialJetLag_def mod_gender_def mod_menopause_def mod_sdb_def
        tst_getAgeProfile interpolate_def tstKeyframes_def)

lemma waso_mods:
  "wasoMins (mod_blueLight c p) = wasoMins p"
  "wasoMins (mod_caffeine c p) = (if activeCaffeine c > 0.1 then wasoMins p + activeCaffeine c * 15 else wasoMins p)"
  "wasoMins (mod_alcohol c p) = (if alcohol c > 0 then wasoMins p + alcohol c * 25 else wasoMins p)"
  "wasoMins (mod_socialJetLag c p) = (if socialJetLag c then wasoMins p + 30 else wasoMins p)"
  "wasoMins (mod_gender c p) = (if gender c = ''male'' \<and> age c > 30 then wasoMins p * 1.1 else wasoMins p)"
  "wasoMins (mod_menopause c p) = (if isMenopausal c then wasoMins p + 45 else wasoMins p)"
  "wasoMins (mod_sdb c p) = (if sdbSeverity c > 0 then wasoMins p + sdbSeverity c / 10 * 80 else wasoMins p)"
  "wasoMins (mod_nocturia c p) = (if nocturia c > 0 then wasoMins p + nocturia c * 10 else wasoMins p)"
  "wasoMins (recalc_n2 p) = wasoMins p"
  by (simp_all add: mod_blueLight_def mod_caffeine_def mod_alcohol_def mod_socialJetLag_def
        mod_gender_def mod_menopause_def mod_sdb_def mod_nocturia_def recalc_n2_def Let_def)

lemma wasoMins_getAgeProfile: "wasoMins (getAgeProfile a) = interpolate a wasoKeyframes"
  by (cases "safety_normalization (interpolate a n3Keyframes) (interpolate a remKeyframes)
               (interpolate a n1Keyframes)") (simp add: getAgeProfile_def)

lemma wasoMins_adjusted_short: "wasoMins (adjusted short_night_config) = 410"
  by (simp add: adjusted_def pre_sdb_def waso_mods wasoMins_getAgeProfile
        interpolate_def wasoKeyframes_def)

subsection \<open>Severity of sleep-disordered breathing\<close>

lemma rescale_mono:
  fixes a1 a2 r1 r2 :: real
  assumes "0 < a2" "a2 < a1" "0 < r1" "r1 \<le> r2"
  shows "(if a2 + r2 > 0.95 then a2 * (0.95 / (a2 + r2)) else a2)
           < (if a1 + r1 > 0.95 then a1 * (0.95 / (a1 + r1)) else a1)"
proof -
  define g1 where "g1 = a1 / (a1 + r1)"
  define g2 where "g2 = a2 / (a2 + r2)"
  have pos: "0 < a1 + r1" "0 < a2 + r2" "0 < a1" "0 < r2" using assms by simp_all
  have "a2 * r1 \<le> a2 * r2" using assms(1,4) by (simp add: mult_left_mono)
  also have "a2 * r2 < a1 * r2" using assms(2) pos(4) by (simp add: mult_strict_right_mono)
  finally have "a2 * (a1 + r1) < a1 * (a2 + r2)" by (simp add: algebra_simps)
  then have g: "g2 < g1"
    unfolding g1_def g2_def using pos(1,2) by (simp add: divide_simps mult.commute)
  have g2: "0 < g2" using assms(1) pos(2) by (simp add: g2_def)
  have e1: "a1 * (0.95 / (a1 + r1)) = 0.95 * g1" by (simp add: g1_def)
  have e2: "a2 * (0.95 / (a2 + r2)) = 0.95 * g2" by (simp add: g2_def)
  have s1: "a1 = (a1 + r1) * g1" using pos(1) by (simp add: g1_def)
  have s2: "a2 = (a2 + r2) * g2" using pos(2) by (simp add: g2_def)
  show ?thesis
  proof (cases "a2 + r2 > 0.95")
    case T2: True
    show ?thesis
    proof (cases "a1 + r1 > 0.95")
      case True
      have "0.95 * g2 < 0.95 * g1" using g by simp
      then have "a2 * (0.95 / (a2 + r2)) < a1 * (0.95 / (a1 + r1))" by (simp only: e1 e2)
      with T2 True show ?thesis by (simp only: if_P if_True)
    next
      case False
      have "0.95 / (a2 + r2) < 1" using T2 by simp
      then have "a2 * (0.95 / (a2 + r2)) < a2 * 1"
        using assms(1) by (intro mult_strict_left_mono)
      with assms(2) have "a2 * (0.95 / (a2 + r2)) < a1" by simp
      with T2 False show ?thesis by (simp only: if_P if_not_P if_False if_True)
    qed
  next
    case F2: False
    show ?thesis
    proof (cases "a1 + r1 > 0.95")
      case True
      have "(a2 + r2) * g2 \<le> 0.95 * g2"
        using F2 g2 by (intro mult_right_mono) simp_all
      also have "0.95 * g2 < 0.95 * g1" using g by simp
      finally have "a2 < 0.95 * g1" using s2 by simp
      then have "a2 < a1 * (0.95 / (a1 + r1))" by (simp only: e1)
      with F2 True show ?thesis by (simp only: if_P if_not_P if_False if_True)
    next
      case False
      with F2 assms(2) show ?thesis by (simp only: if_not_P if_False)
    qed
  qed
qed

lemma activeCaffeine_sdb [simp]: "activeCaffeine (c\<lparr>sdbSeverity := s\<rparr>) = activeCaffeine c"
  by (simp add: activeCaffeine_def halfLife_def)

lemma mods_sdb [simp]:
  "mod_blueLight (c\<lparr>sdbSeverity := s\<rparr>) p = mod_blueLight c p"
  "mod_caffeine (c\<lparr>sdbSeverity := s\<rparr>) p = mod_caffeine c p"
  "mod_alcohol (c\<lparr>sdbSeverity := s\<rparr>) p = mod_alcohol c p"
  "mod_socialJetLag (c\<lparr>sdbSeverity := s\<rparr>) p = mod_socialJetLag c p"
  "mod_gender (c\<lparr>sdbSeverity := s\<rparr>) p = mod_gender c p"
  "mod_menopause (c\<lparr>sdbSeverity := s\<rparr>) p = mod_menopause c p"
  "mod_nocturia (c\<lparr>sdbSeverity := s\<rparr>) p = mod_nocturia c p"
  by (simp_all add: mod_blueLight_def mod_caffeine_def mod_alcohol_def
        mod_socialJetLag_def mod_gender_def mod_menopause_def mod_nocturia_def)

lemma pre_sdb_sdb [simp]: "pre_sdb (c\<lparr>sdbSeverity := s\<rparr>) = pre_sdb c"
  by (simp add: pre_sdb_def)

lemma valid_config_sdb:
  "valid_config c \<Longrightarrow> 0 \<le> s \<Longrightarrow> s \<le> 10 \<Longrightarrow> valid_config (c\<lparr>sdbSeverity := s\<rparr>)"
  by (simp add: valid_config_def)

lemma rescale_mono3:
  fixes a1 a2 x1 x2 y1 y2 :: real
  assumes "0 < a2" "a2 < a1" "0 < x1 + y1" "x1 + y1 \<le> x2 + y2"
  shows "(if a2 + x2 + y2 > 0.95 then a2 * (0.95 / (a2 + x2 + y2)) else a2)
           < (if a1 + x1 + y1 > 0.95 then a1 * (0.95 / (a1 + x1 + y1)) else a1)"
  using rescale_mono[OF assms] by (simp only: add.assoc)

lemma mod_sdb_fractions:
  assumes "0 \<le> sdbSeverity c"
  shows "n3P (mod_sdb c p) = n3P p * (1 - sdbSeverity c / 10 * 0.75)"
    and "remP (mod_sdb c p) = remP p * (1 - sdbSeverity c / 10 * 0.3)"
    and "n1P (mod_sdb c p) = n1P p + sdbSeverity c / 10 * 0.15"
proof -
  have "sdbSeverity c > 0 \<or> sdbSeverity c = 0" using assms by linarith
  then show "n3P (mod_sdb c p) = n3P p * (1 - sdbSeverity c / 10 * 0.75)"
    "remP (mod_sdb c p) = remP p * (1 - sdbSeverity c / 10 * 0.3)"
    "n1P (mod_sdb c p) = n1P p + sdbSeverity c / 10 * 0.15"
    by (auto simp: mod_sdb_def Let_def)
qed

lemma mod_nocturia_fractions [simp]:
  "n3P (mod_nocturia c p) = n3P p" "remP (mod_nocturia c p) = remP p"
  "n1P (mod_nocturia c p) = n1P p"
  by (simp_all add: mod_nocturia_def)

lemma recalc_n2_n3P:
  "n3P (recalc_n2 p)
     = (if n3P p + remP p + n1P p > 0.95
        then n3P p * (0.95 / (n3P p + remP p + n1P p)) else n3P p)"
  by (simp add: recalc_n2_def Let_def)

lemma n3P_adjusted_sdb:
  assumes "0 \<le> s"
  shows "n3P (adjusted (c\<lparr>sdbSeverity := s\<rparr>))
     = (if n3P (pre_sdb c) * (1 - s / 10 * 0.75)
            + remP (pre_sdb c) * (1 - s / 10 * 0.3) + (n1P (pre_sdb c) + s / 10 * 0.15) > 0.95
        then n3P (pre_sdb c) * (1 - s / 10 * 0.75)
               * (0.95 / (n3P (pre_sdb c) * (1 - s / 10 * 0.75)
                   + remP (pre_sdb c) * (1 - s / 10 * 0.3) + (n1P (pre_sdb c) + s / 10 * 0.15)))
        else n3P (pre_sdb c) * (1 - s / 10 * 0.75))"
proof -
  have s: "0 \<le> sdbSeverity (c\<lparr>sdbSeverity := s\<rparr>)" "sdbSeverity (c\<lparr>sdbSeverity := s\<rparr>) = s"
    using assms by simp_all
  show ?thesis
    by (simp only: adjusted_def recalc_n2_n3P mod_nocturia_fractions mod_sdb_fractions[OF s(1)]
      pre_sdb_sdb s(2))
qed

lemma wasoMins_adjusted_sdb:
  assumes "0 \<le> s"
  shows "wasoMins (adjusted (c\<lparr>sdbSeverity := s\<rparr>))
           = wasoMins (pre_sdb c) + s / 10 * 80 + (if nocturia c > 0 then nocturia c * 10 else 0)"
proof (cases "s > 0")
  case True
  then show ?thesis by (simp add: adjusted_def waso_mods)
next
  case False
  with assms have "s = 0" by simp
  then show ?thesis by (simp add: adjusted_def waso_mods)
qed

lemma sdb_n3P_decreases:
  assumes "valid_config c" "0 \<le> s1" "s1 < s2" "s2 \<le> 10"
  shows "n3P (adjusted (c\<lparr>sdbSeverity := s2\<rparr>)) < n3P (adjusted (c\<lparr>sdbSeverity := s1\<rparr>))"
proof -
  define A where "A = n3P (pre_sdb c)"
  define R where "R = remP (pre_sdb c)"
  define B where "B = n1P (pre_sdb c)"
  have q: "0 < A" "0 < R" "R \<le> 0.5" "0 \<le> B"
    using good_pre_sdb[OF assms(1)] by (simp_all add: good_profile_def A_def R_def B_def)
  define f1 where "f1 = s1 / 10"
  define f2 where "f2 = s2 / 10"
  have f: "0 \<le> f1" "f1 < f2" "f2 \<le> 1" using assms(2-4) by (simp_all add: f1_def f2_def)
  have s2: "0 \<le> s2" using assms(2,3) by simp
  have k2: "0 < 1 - f2 * 0.75" using f by simp
  have k12: "1 - f2 * 0.75 < 1 - f1 * 0.75" using f by simp
  have a2: "0 < A * (1 - f2 * 0.75)" using q(1) k2 by (rule mult_pos_pos)
  have a21: "A * (1 - f2 * 0.75) < A * (1 - f1 * 0.75)"
    using k12 q(1) by (rule mult_strict_left_mono)
  have "0 < R * (1 - f1 * 0.3)" using q(2) f by (intro mult_pos_pos) simp_all
  then have r1: "0 < R * (1 - f1 * 0.3) + (B + f1 * 0.15)" using q(4) f(1) by simp
  have "(R * 0.3) * f1 \<le> 0.15 * f1" using q(3) f(1) by (intro mult_right_mono) simp_all
  have "(0.15 - R * 0.3) * f1 \<le> (0.15 - R * 0.3) * f2"
    using q(3) f(2) by (intro mult_left_mono) simp_all
  then have r12: "R * (1 - f1 * 0.3) + (B + f1 * 0.15) \<le> R * (1 - f2 * 0.3) + (B + f2 * 0.15)"
    by (simp add: algebra_simps)
  from rescale_mono3[OF a2 a21 r1 r12] show ?thesis
    unfolding n3P_adjusted_sdb[OF assms(2)] n3P_adjusted_sdb[OF s2]
      A_def R_def B_def f1_def f2_def .
qed

subsection \<open>A run that drops its wake chunk\<close>

lemma cycle_body_wake_blocks:
  "filter (\<lambda>b. stage b = WAKE) (blocks (cycle_body c p s)) = filter (\<lambda>b. stage b = WAKE) (blocks s)"
  by (cases "local_fractions c p (cycleIndex s)")
     (simp add: cycle_body_def Let_def emit_sleep_def)

lemma cycle_step_no_wake:
  assumes "\<not> (wakeChunkIndex s < length idxs \<and> idxs ! wakeChunkIndex s = int (cycleIndex s))"
  shows "wakeChunkIndex (cycle_step c p wcd idxs s) = wakeChunkIndex s"
    and "filter (\<lambda>b. stage b = WAKE) (blocks (cycle_step c p wcd idxs s))
           = filter (\<lambda>b. stage b = WAKE) (blocks s)"
proof -
  have "inject_wake wcd idxs (cycle_body c p s) = cycle_body c p s"
    using assms by (intro inject_wake_stop) simp
  then have e: "cycle_step c p wcd idxs s = (cycle_body c p s)\<lparr>cycleIndex := cycleIndex s + 1\<rparr>"
    by (simp add: cycle_step_def Let_def)
  show "wakeChunkIndex (cycle_step c p wcd idxs s) = wakeChunkIndex s"
    by (simp add: e)
  show "filter (\<lambda>b. stage b = WAKE) (blocks (cycle_step c p wcd idxs s))
           = filter (\<lambda>b. stage b = WAKE) (blocks s)"
    by (simp add: e cycle_body_wake_blocks)
qed

lemma example_fields [simp]:
  "age example_config = 29" "alcohol example_config = 0" "chronotype example_config = ''normal''"
  "\<not> socialJetLag example_config" "\<not> blueLight example_config" "\<not> isMenopausal example_config"
  by (simp_all add: example_config_def)

lemma skipped_n3_example:
  assumes "k < 5"
  shows "skipped_n3 example_config (adjusted example_config) k = 0"
proof -
  from assms have "k = 0 \<or> k = 1 \<or> k = 2 \<or> k = 3 \<or> k = 4" by arith
  then show ?thesis
    by (elim disjE)
       (simp_all add: skipped_n3_def local_fractions_def local_raw_def local_normalize_def
          localN3_init_def localREM_init_def Let_def adjusted_example)
qed

lemma example_step:
  assumes "cycleIndex s = k" "k < 5" "accumulatedSleep s = a" "a < 456" "wakeChunkIndex s = 0"
  shows "cycleIndex (cycle_step example_config (adjusted example_config) wcd [5] s) = k + 1"
    and "accumulatedSleep (cycle_step example_config (adjusted example_config) wcd [5] s)
           = a + min 90 (456 - a) + transN1 example_config (min 90 (456 - a))"
    and "wakeChunkIndex (cycle_step example_config (adjusted example_config) wcd [5] s) = 0"
    and "filter (\<lambda>b. stage b = WAKE)
            (blocks (cycle_step example_config (adjusted example_config) wcd [5] s))
           = filter (\<lambda>b. stage b = WAKE) (blocks s)"
proof -
  have no: "\<not> (wakeChunkIndex s < length [5::int] \<and> [5::int] ! wakeChunkIndex s = int (cycleIndex s))"
    using assms(1,2,5) by simp
  show "cycleIndex (cycle_step example_config (adjusted example_config) wcd [5] s) = k + 1"
    using assms(1) by simp
  show "accumulatedSleep (cycle_step example_config (adjusted example_config) wcd [5] s)
           = a + min 90 (456 - a) + transN1 example_config (min 90 (456 - a))"
    using assms(1,3) skipped_n3_example[OF assms(2)]
    by (simp add: cycle_step_sleep) (simp add: adjusted_example)
  show "wakeChunkIndex (cycle_step example_config (adjusted example_config) wcd [5] s) = 0"
    using cycle_step_no_wake(1)[OF no] assms(5) by simp
  show "filter (\<lambda>b. stage b = WAKE)
            (blocks (cycle_step example_config (adjusted example_config) wcd [5] s))
           = filter (\<lambda>b. stage b = WAKE) (blocks s)"
    by (rule cycle_step_no_wake(2)[OF no])
qed

lemma latency_example: "latency example_config = 49 / 4"
  by (simp add: latency_def Let_def blueLightLatency_def)

lemma startTimeOffset_example: "startTimeOffset example_config = 0"
  by (simp add: startTimeOffset_def Let_def agePhaseShift_def teenShift_def)

lemma wakeInsertionIndices_example:
  "wakeInsertionIndices (adjusted example_config) (\<lambda>k. 9 / 10) = [5]"
proof -
  have "estCycles (adjusted example_config) = 6"
    by (simp add: estCycles_def adjusted_example)
  moreover have "\<lfloor>(9 / 10 :: real) * 6\<rfloor> = 5" by simp
  ultimately show ?thesis
    by (simp add: wakeInsertionIndices_def numWakeChunks_example)
qed

lemma wakeChunkDuration_example: "wakeChunkDuration (adjusted example_config) = 39 / 2"
  by (simp add: wakeChunkDuration_def numWakeChunks_example) (simp add: adjusted_example)

lemma example_inv_initial: "example_inv 0 5 (initial_state example_config)"
  unfolding example_inv_def
  using wf_initial[of example_config] time_inv_initial[of example_config "39 / 2"]
  by (simp add: latency_example) (simp add: initial_state_def initialN1_example latency_example)

lemma example_inv_step:
  assumes "example_inv k a s" "k < 5" "a < 456"
  shows "example_inv (k + 1) (a + min 90 (456 - a) + transN1 example_config (min 90 (456 - a)))
           (cycle_step example_config (adjusted example_config) (39 / 2) [5] s)"
proof -
  from assms(1) have i: "cycleIndex s = k" "accumulatedSleep s = a" "wakeChunkIndex s = 0"
      "filter (\<lambda>b. stage b = WAKE) (blocks s) = [\<lparr>stage = WAKE, duration = 49 / 4, start = 0\<rparr>]"
      "wf_state s" "time_inv (49 / 4) (39 / 2) s"
    by (simp_all add: example_inv_def)
  note st = example_step[OF i(1) assms(2) i(2) assms(3) i(3), of "39 / 2"]
  show ?thesis
    unfolding example_inv_def
    using st i(4) wf_cycle_step[OF i(5)] time_inv_step[OF i(6)] by simp
qed

lemma example_loop_step:
  assumes "example_inv k a s" "a < 456"
  shows "cycle_loop example_config (adjusted example_config) (39 / 2) [5] s
           = cycle_loop example_config (adjusted example_config) (39 / 2) [5]
               (cycle_step example_config (adjusted example_config) (39 / 2) [5] s)"
proof -
  have "accumulatedSleep s < tst (adjusted example_config)"
    using assms by (simp add: example_inv_def adjusted_example)
  then show ?thesis by (subst cycle_loop.simps) simp
qed

lemma example_loop_stop:
  assumes "example_inv k a s" "456 \<le> a"
  shows "cycle_loop example_config (adjusted example_config) (39 / 2) [5] s = Some s"
proof -
  have "\<not> accumulatedSleep s < tst (adjusted example_config)"
    using assms by (simp add: example_inv_def adjusted_example)
  then show ?thesis by (subst cycle_loop.simps) simp
qed

lemma wake_blocks_shifted:
  "filter (\<lambda>b. stage b = WAKE) (map (\<lambda>b. b\<lparr>start := f b\<rparr>) bs)
     = map (\<lambda>b. b\<lparr>start := f b\<rparr>) (filter (\<lambda>b. stage b = WAKE) bs)"
  by (induction bs) simp_all

subsection \<open>The loop in double precision\<close>














lemma run_d_0: "run_d c rnd 0 = initial_state_d c"
  by (simp add: run_d_def)

lemma run_d_Suc:
  "run_d c rnd (Suc k) =
     cycle_step_d c (adjusted_d c) (wakeChunkDuration_d (adjusted_d c))
       (wakeInsertionIndices_d (adjusted_d c) rnd) (run_d c rnd k)"
  by (simp add: run_d_def)

lemma run_d_pred:
  "0 < k \<Longrightarrow> run_d c rnd k =
     cycle_step_d c (adjusted_d c) (wakeChunkDuration_d (adjusted_d c))
       (wakeInsertionIndices_d (adjusted_d c) rnd) (run_d c rnd (k - 1))"
  by (cases k) (simp_all add: run_d_Suc)

lemma cycle_loop_d_unroll:
  assumes "\<And>j. j < k \<Longrightarrow> accumulatedSleep (run_d c rnd (n + j)) < tst (adjusted_d c)"
    and "\<not> accumulatedSleep (run_d c rnd (n + k)) < tst (adjusted_d c)"
  shows "cycle_loop_d c (adjusted_d c) (wakeChunkDuration_d (adjusted_d c))
           (wakeInsertionIndices_d (adjusted_d c) rnd) (run_d c rnd n) = Some (run_d c rnd (n + k))"
  using assms
proof (induction k arbitrary: n)
  case 0
  then show ?case by (subst cycle_loop_d.simps) simp
next
  case (Suc k)
  from Suc.prems(1)[of 0] have lt: "accumulatedSleep (run_d c rnd n) < tst (adjusted_d c)" by simp
  have "cycle_loop_d c (adjusted_d c) (wakeChunkDuration_d (adjusted_d c))
          (wakeInsertionIndices_d (adjusted_d c) rnd) (run_d c rnd (Suc n))
        = Some (run_d c rnd (Suc n + k))"
  proof (rule Suc.IH)
    fix j assume "j < k"
    with Suc.prems(1)[of "Suc j"] show "accumulatedSleep (run_d c rnd (Suc n + j)) < tst (adjusted_d c)"
      by simp
  next
    from Suc.prems(2) show "\<not> accumulatedSleep (run_d c rnd (Suc n + k)) < tst (adjusted_d c)" by simp
  qed
  with lt show ?case
    by (subst cycle_loop_d.simps) (simp add: run_d_Suc)
qed

lemma cycle_loop_d_run:
  assumes "\<And>j. j < k \<Longrightarrow> accumulatedSleep (run_d c rnd j) < tst (adjusted_d c)"
    and "\<not> accumulatedSleep (run_d c rnd k) < tst (adjusted_d c)"
  shows "cycle_loop_d c (adjusted_d c) (wakeChunkDuration_d (adjusted_d c))
           (wakeInsertionIndices_d (adjusted_d c) rnd) (initial_state_d c) = Some (run_d c rnd k)"
  using cycle_loop_d_unroll[of k c rnd 0] assms by (simp add: run_d_0)

lemma generate_d_unroll:
  assumes "\<And>j. j < k \<Longrightarrow> accumulatedSleep (run_d c rnd j) < tst (adjusted_d c)"
    and "\<not> accumulatedSleep (run_d c rnd k) < tst (adjusted_d c)"
  shows "generate_d c rnd = Some (finish_d c (adjusted_d c) rnd (run_d c rnd k))"
  using cycle_loop_d_run[OF assms] by (simp add: generate_d_def Let_def)

lemma finish_d_fields [simp]:
  "res_blocks (finish_d c p rnd s)
     = map (\<lambda>b. b\<lparr>start := fadd (fadd (start b) 240) (startTimeOffset_d c)\<rparr>) (blocks s)"
  "pa_startTimeOffset (res_params (finish_d c p rnd s)) = startTimeOffset_d c"
  "st_tst (res_stats (finish_d c p rnd s)) = actualTST_d (blocks s)"
  "st_tib (res_stats (finish_d c p rnd s)) = currentTime s"
  by (simp_all add: finish_d_def Let_def)


subsection \<open>Evaluating the rounding on literals\<close>

text \<open>
  Rewrite rules that compute \<open>fl\<close> on numerals and fractions of numerals only, so that
  the simplifier evaluates the double-precision model at a concrete input and leaves
  symbolic terms alone.
\<close>

lemma fl_minus: "fl (- x) = - fl x"
  by (simp add: fl_def Let_def)

lemma fl_pos:
  "0 < x \<Longrightarrow> fl x = of_int (nearest_even (x / pow2 (expo x - 52))) * pow2 (expo x - 52)"
  by (simp add: fl_def Let_def)

lemma fl_zero: "fl 0 = 0"
  by (simp add: fl_def)

lemmas fl_literal = fl_zero fl_pos [of 1, OF zero_less_one]
  fl_pos [of "numeral a", OF zero_less_numeral]
  fl_pos [of "numeral a / numeral b", OF divide_pos_pos [OF zero_less_numeral zero_less_numeral]]
  fl_pos [of "1 / numeral b", OF divide_pos_pos [OF zero_less_one zero_less_numeral]] for a b

lemmas expo_literal = expo_def [of 1] expo_def [of "numeral a"]
  expo_def [of "numeral a / numeral b"] expo_def [of "1 / numeral b"] for a b

lemmas pow2_literal = pow2_def [of 0] pow2_def [of 1] pow2_def [of "numeral k"] pow2_def [of "- 1"]
  pow2_def [of "- numeral k"] for k

lemmas nearest_even_literal = nearest_even_def [of 1] nearest_even_def [of "numeral a"]
  nearest_even_def [of "numeral a / numeral b"] nearest_even_def [of "1 / numeral b"] for a b

lemmas binary_digits_literal = binary_digits.simps [of 0] binary_digits.simps [of 1]
  binary_digits.simps [of "Suc 0"] binary_digits.simps [of "numeral n"] for n

lemmas fl_eval = fl_minus fl_literal expo_literal pow2_literal nearest_even_literal
  binary_digits_literal Let_def

lemmas fops = fadd_def fsub_def fmul_def fdiv_def

text \<open>The doubles 0.1 and 0.3, and the sum 0.1 + 0.2 = 0.30000000000000004.\<close>

lemma fl_examples:
  "fl (1 / 10) = 3602879701896397 / 36028797018963968"
  "fl (3 / 10) = 5404319552844595 / 18014398509481984"
  "fadd (fl (1 / 10)) (fl (2 / 10)) = 1351079888211149 / 4503599627370496"
  by (simp_all add: fops fl_eval)

lemmas cycle_eval = cycle_step_d_def cycle_body_d_def local_fractions_d_def local_raw_d_def
  local_normalize_d_def localN3_init_d_def localREM_init_d_def emit_sleep_d_def emit_wake_d_def
  inject_wake_d.simps

lemma upt_numeral: "[i..<numeral n] = (if i < numeral n then i # [Suc i..<numeral n] else [])"
  by (rule upt_rec)

subsection \<open>The example night in double precision\<close>

lemma more_example_fields:
  "gender example_config = ''female''" "sdbSeverity example_config = 0"
  "nocturia example_config = 0" "caffeine example_config = 0"
  by (simp_all add: example_config_def)

lemma activeCaffeine_d_example: "activeCaffeine_d example_config = 0"
  by (simp add: activeCaffeine_d_def fops fl_eval example_fields more_example_fields)

lemma getAgeProfile_d_29:
  "getAgeProfile_d 29 =
     \<lparr>tst = 456, n3P = 3602879701896397 / 18014398509481984,
        remP = 8692766117120943 / 36028797018963968, n1P = 3602879701896397 / 72057594037927936,
        n2P = 1145551977943877 / 2251799813685248, wasoMins = 39 / 2\<rparr>"
  by (simp add: getAgeProfile_d_def safety_normalization_d_def interpolate_d_def as_doubles_def
        tstKeyframes_def n3Keyframes_def remKeyframes_def n1Keyframes_def wasoKeyframes_def
        fops fl_eval)

lemma adjusted_d_example:
  "adjusted_d example_config =
     \<lparr>tst = 456, n3P = 3602879701896397 / 18014398509481984,
        remP = 8692766117120943 / 36028797018963968, n1P = 3602879701896397 / 72057594037927936,
        n2P = 1145551977943877 / 2251799813685248, wasoMins = 39 / 2\<rparr>"
  by (simp add: adjusted_d_def mod_blueLight_d_def mod_caffeine_d_def mod_alcohol_d_def
        mod_socialJetLag_d_def mod_gender_d_def mod_menopause_d_def mod_sdb_d_def
        mod_nocturia_d_def activeCaffeine_d_example example_fields more_example_fields
        getAgeProfile_d_29 recalc_n2_d_def fops fl_eval)

lemma tst_adjusted_d_example: "tst (adjusted_d example_config) = 456"
  by (simp add: adjusted_d_example)

lemma latency_d_example: "latency_d example_config = 49 / 4"
  by (simp add: latency_d_def blueLightLatency_def activeCaffeine_d_example example_fields more_example_fields
        fops fl_eval)

lemma initialN1_d_example: "initialN1_d example_config = 5"
  by (simp add: initialN1_d_def activeCaffeine_d_example example_fields more_example_fields
        fops fl_eval)


lemma chunks_d_example:
  "wakeChunkDuration_d (adjusted_d example_config) = 39 / 2"
  "wakeInsertionIndices_d (adjusted_d example_config) (\<lambda>k. 1 / 2) = [3]"
  by (simp_all add: numWakeChunks_d_def wakeChunkDuration_d_def wakeInsertionIndices_d_def
        estCycles_d_def adjusted_d_example fops fl_eval upt_numeral)

lemma example_d_step_0:
  assumes "currentTime s = 69 / 4"
    and "accumulatedSleep s = 5"
    and "cycleIndex s = 0" "wakeChunkIndex s = 0"
  shows "cycle_step_d example_config (adjusted_d example_config) (39 / 2) [3] s =
           s\<lparr>blocks := blocks s @
                [\<lparr>stage = N2, duration = 4857439261730037 / 281474976710656,
                    start = 69 / 4\<rparr>,
                 \<lparr>stage = N3, duration = 36,
                    start = 2428220652497213 / 70368744177664\<rparr>,
                 \<lparr>stage = N2, duration = 3643079446297527 / 140737488355328,
                    start = 4961495442893117 / 70368744177664\<rparr>,
                 \<lparr>stage = REM, duration = 6112101176100663 / 562949953421312,
                    start = 847879395755235 / 8796093022208\<rparr>,
                 \<lparr>stage = N1, duration = 2,
                    start = 7547047813054463 / 70368744177664\<rparr>],
             currentTime := 7687785301409791 / 70368744177664,
             accumulatedSleep := 6825768185233407 / 70368744177664,
             cycleIndex := 1\<rparr>"
  by (simp add: assms cycle_eval fops fl_eval adjusted_d_example
        example_fields more_example_fields)

lemma example_d_step_1:
  assumes "currentTime s = 7687785301409791 / 70368744177664"
    and "accumulatedSleep s = 6825768185233407 / 70368744177664"
    and "cycleIndex s = 1" "wakeChunkIndex s = 0"
  shows "cycle_step_d example_config (adjusted_d example_config) (39 / 2) [3] s =
           s\<lparr>blocks := blocks s @
                [\<lparr>stage = N2, duration = 4731973070292975 / 281474976710656,
                    start = 7687785301409791 / 70368744177664\<rparr>,
                 \<lparr>stage = N3, duration = 4306567143673037 / 140737488355328,
                    start = 8870778568983035 / 70368744177664\<rparr>,
                 \<lparr>stage = N2, duration = 7097959605439461 / 281474976710656,
                    start = 5512031070409777 / 35184372088832\<rparr>,
                 \<lparr>stage = REM, duration = 4889680940880531 / 281474976710656,
                    start = 3199638010544855 / 17592186044416\<rparr>,
                 \<lparr>stage = N1, duration = 2, start = 797 / 4\<rparr>],
             currentTime := 805 / 4,
             accumulatedSleep := 189,
             cycleIndex := 2\<rparr>"
  by (simp add: assms cycle_eval fops fl_eval adjusted_d_example
        example_fields more_example_fields)

lemma example_d_step_2:
  assumes "currentTime s = 805 / 4"
    and "accumulatedSleep s = 189"
    and "cycleIndex s = 2" "wakeChunkIndex s = 0"
  shows "cycle_step_d example_config (adjusted_d example_config) (39 / 2) [3] s =
           s\<lparr>blocks := blocks s @
                [\<lparr>stage = N2, duration = 575813359856989 / 35184372088832,
                    start = 805 / 4\<rparr>,
                 \<lparr>stage = N3, duration = 3546584706554265 / 140737488355328,
                    start = 7656668242734429 / 35184372088832\<rparr>,
                 \<lparr>stage = N2, duration = 1727440079570967 / 70368744177664,
                    start = 8543314419372995 / 35184372088832\<rparr>,
                 \<lparr>stage = REM, duration = 3361655646855365 / 140737488355328,
                    start = 4703517229579239 / 17592186044416\<rparr>,
                 \<lparr>stage = N1, duration = 2, start = 1165 / 4\<rparr>],
             currentTime := 1173 / 4,
             accumulatedSleep := 281,
             cycleIndex := 3\<rparr>"
  by (simp add: assms cycle_eval fops fl_eval adjusted_d_example
        example_fields more_example_fields)

lemma example_d_step_3:
  assumes "currentTime s = 1173 / 4"
    and "accumulatedSleep s = 281"
    and "cycleIndex s = 3" "wakeChunkIndex s = 0"
  shows "cycle_step_d example_config (adjusted_d example_config) (39 / 2) [3] s =
           s\<lparr>blocks := blocks s @
                [\<lparr>stage = N2, duration = 8962081374837697 / 562949953421312,
                    start = 1173 / 4\<rparr>,
                 \<lparr>stage = N3, duration = 2786602269435495 / 140737488355328,
                    start = 2719486800244335 / 8796093022208\<rparr>,
                 \<lparr>stage = N2, duration = 420097564445517 / 17592186044416,
                    start = 5787298884168107 / 17592186044416\<rparr>,
                 \<lparr>stage = REM, duration = 4278470823270465 / 140737488355328,
                    start = 775924556076703 / 2199023255552\<rparr>,
                 \<lparr>stage = N1, duration = 2, start = 1533 / 4\<rparr>,
                 \<lparr>stage = WAKE, duration = 39 / 2, start = 1541 / 4\<rparr>],
             currentTime := 1619 / 4,
             accumulatedSleep := 373,
             cycleIndex := 4, wakeChunkIndex := 1\<rparr>"
  by (simp add: assms cycle_eval fops fl_eval adjusted_d_example
        example_fields more_example_fields)

lemma example_d_step_4:
  assumes "currentTime s = 1619 / 4"
    and "accumulatedSleep s = 373"
    and "cycleIndex s = 4" "wakeChunkIndex s = 1"
  shows "cycle_step_d example_config (adjusted_d example_config) (39 / 2) [3] s =
           s\<lparr>blocks := blocks s @
                [\<lparr>stage = N2, duration = 8033615181477517 / 562949953421312,
                    start = 1619 / 4\<rparr>,
                 \<lparr>stage = N3, duration = 7475975381435025 / 562949953421312,
                    start = 1842871943974637 / 4398046511104\<rparr>,
                 \<lparr>stage = N2, duration = 6025211386108137 / 281474976710656,
                    start = 7605112006568393 / 17592186044416\<rparr>,
                 \<lparr>stage = REM, duration = 1197802049927505 / 35184372088832,
                    start = 997710964775019 / 2199023255552\<rparr>,
                 \<lparr>stage = N1, duration = 2, start = 1951 / 4\<rparr>],
             currentTime := 1959 / 4,
             accumulatedSleep := 458,
             cycleIndex := 5\<rparr>"
  by (simp add: assms cycle_eval fops fl_eval adjusted_d_example
        example_fields more_example_fields)

lemma example_d_run_0:
  "currentTime (run_d example_config (\<lambda>k. 1 / 2) 0) = 69 / 4" "accumulatedSleep (run_d example_config (\<lambda>k. 1 / 2) 0) = 5"
  "cycleIndex (run_d example_config (\<lambda>k. 1 / 2) 0) = 0" "wakeChunkIndex (run_d example_config (\<lambda>k. 1 / 2) 0) = 0"
  "blocks (run_d example_config (\<lambda>k. 1 / 2) 0) =
     [\<lparr>stage = WAKE, duration = 49 / 4, start = 0\<rparr>,
      \<lparr>stage = N1, duration = 5, start = 49 / 4\<rparr>]"
  by (simp_all add: run_d_0 initial_state_d_def latency_d_example initialN1_d_example fops fl_eval)

lemma example_d_run_1:
  "currentTime (run_d example_config (\<lambda>k. 1 / 2) (Suc 0)) = 7687785301409791 / 70368744177664"
  "accumulatedSleep (run_d example_config (\<lambda>k. 1 / 2) (Suc 0)) = 6825768185233407 / 70368744177664"
  "cycleIndex (run_d example_config (\<lambda>k. 1 / 2) (Suc 0)) = 1"
  "wakeChunkIndex (run_d example_config (\<lambda>k. 1 / 2) (Suc 0)) = 0"
  using run_d_pred [of 1 example_config "\<lambda>k. 1 / 2", simplified]
  by (simp_all add: chunks_d_example example_d_step_0 example_d_run_0)

lemma example_d_run_2:
  "currentTime (run_d example_config (\<lambda>k. 1 / 2) 2) = 805 / 4"
  "accumulatedSleep (run_d example_config (\<lambda>k. 1 / 2) 2) = 189"
  "cycleIndex (run_d example_config (\<lambda>k. 1 / 2) 2) = 2"
  "wakeChunkIndex (run_d example_config (\<lambda>k. 1 / 2) 2) = 0"
  using run_d_pred [of 2 example_config "\<lambda>k. 1 / 2", simplified]
  by (simp_all add: chunks_d_example example_d_step_1 example_d_run_1)

lemma example_d_run_3:
  "currentTime (run_d example_config (\<lambda>k. 1 / 2) 3) = 1173 / 4"
  "accumulatedSleep (run_d example_config (\<lambda>k. 1 / 2) 3) = 281"
  "cycleIndex (run_d example_config (\<lambda>k. 1 / 2) 3) = 3"
  "wakeChunkIndex (run_d example_config (\<lambda>k. 1 / 2) 3) = 0"
  using run_d_pred [of 3 example_config "\<lambda>k. 1 / 2", simplified]
  by (simp_all add: chunks_d_example example_d_step_2 example_d_run_2)

lemma example_d_run_4:
  "currentTime (run_d example_config (\<lambda>k. 1 / 2) 4) = 1619 / 4"
  "accumulatedSleep (run_d example_config (\<lambda>k. 1 / 2) 4) = 373"
  "cycleIndex (run_d example_config (\<lambda>k. 1 / 2) 4) = 4"
  "wakeChunkIndex (run_d example_config (\<lambda>k. 1 / 2) 4) = 1"
  using run_d_pred [of 4 example_config "\<lambda>k. 1 / 2", simplified]
  by (simp_all add: chunks_d_example example_d_step_3 example_d_run_3)

lemma example_d_run_5:
  "currentTime (run_d example_config (\<lambda>k. 1 / 2) 5) = 1959 / 4"
  "accumulatedSleep (run_d example_config (\<lambda>k. 1 / 2) 5) = 458"
  "cycleIndex (run_d example_config (\<lambda>k. 1 / 2) 5) = 5"
  "wakeChunkIndex (run_d example_config (\<lambda>k. 1 / 2) 5) = 1"
  using run_d_pred [of 5 example_config "\<lambda>k. 1 / 2", simplified]
  by (simp_all add: chunks_d_example example_d_step_4 example_d_run_4)

lemma example_d_blocks:
  "blocks (run_d example_config (\<lambda>k. 1 / 2) 5) =
     [\<lparr>stage = WAKE, duration = 49 / 4, start = 0\<rparr>,
      \<lparr>stage = N1, duration = 5, start = 49 / 4\<rparr>,
      \<lparr>stage = N2, duration = 4857439261730037 / 281474976710656, start = 69 / 4\<rparr>,
      \<lparr>stage = N3, duration = 36, start = 2428220652497213 / 70368744177664\<rparr>,
      \<lparr>stage = N2, duration = 3643079446297527 / 140737488355328,
         start = 4961495442893117 / 70368744177664\<rparr>,
      \<lparr>stage = REM, duration = 6112101176100663 / 562949953421312,
         start = 847879395755235 / 8796093022208\<rparr>,
      \<lparr>stage = N1, duration = 2, start = 7547047813054463 / 70368744177664\<rparr>,
      \<lparr>stage = N2, duration = 4731973070292975 / 281474976710656,
         start = 7687785301409791 / 70368744177664\<rparr>,
      \<lparr>stage = N3, duration = 4306567143673037 / 140737488355328,
         start = 8870778568983035 / 70368744177664\<rparr>,
      \<lparr>stage = N2, duration = 7097959605439461 / 281474976710656,
         start = 5512031070409777 / 35184372088832\<rparr>,
      \<lparr>stage = REM, duration = 4889680940880531 / 281474976710656,
         start = 3199638010544855 / 17592186044416\<rparr>,
      \<lparr>stage = N1, duration = 2, start = 797 / 4\<rparr>,
      \<lparr>stage = N2, duration = 575813359856989 / 35184372088832, start = 805 / 4\<rparr>,
      \<lparr>stage = N3, duration = 3546584706554265 / 140737488355328,
         start = 7656668242734429 / 35184372088832\<rparr>,
      \<lparr>stage = N2, duration = 1727440079570967 / 70368744177664,
         start = 8543314419372995 / 35184372088832\<rparr>,
      \<lparr>stage = REM, duration = 3361655646855365 / 140737488355328,
         start = 4703517229579239 / 17592186044416\<rparr>,
      \<lparr>stage = N1, duration = 2, start = 1165 / 4\<rparr>,
      \<lparr>stage = N2, duration = 8962081374837697 / 562949953421312, start = 1173 / 4\<rparr>,
      \<lparr>stage = N3, duration = 2786602269435495 / 140737488355328,
         start = 2719486800244335 / 8796093022208\<rparr>,
      \<lparr>stage = N2, duration = 420097564445517 / 17592186044416,
         start = 5787298884168107 / 17592186044416\<rparr>,
      \<lparr>stage = REM, duration = 4278470823270465 / 140737488355328,
         start = 775924556076703 / 2199023255552\<rparr>,
      \<lparr>stage = N1, duration = 2, start = 1533 / 4\<rparr>,
      \<lparr>stage = WAKE, duration = 39 / 2, start = 1541 / 4\<rparr>,
      \<lparr>stage = N2, duration = 8033615181477517 / 562949953421312, start = 1619 / 4\<rparr>,
      \<lparr>stage = N3, duration = 7475975381435025 / 562949953421312,
         start = 1842871943974637 / 4398046511104\<rparr>,
      \<lparr>stage = N2, duration = 6025211386108137 / 281474976710656,
         start = 7605112006568393 / 17592186044416\<rparr>,
      \<lparr>stage = REM, duration = 1197802049927505 / 35184372088832,
         start = 997710964775019 / 2199023255552\<rparr>,
      \<lparr>stage = N1, duration = 2, start = 1951 / 4\<rparr>]"
  using run_d_pred [of 1 example_config "\<lambda>k. 1 / 2", simplified]
    run_d_pred [of 2 example_config "\<lambda>k. 1 / 2", simplified]
    run_d_pred [of 3 example_config "\<lambda>k. 1 / 2", simplified]
    run_d_pred [of 4 example_config "\<lambda>k. 1 / 2", simplified]
    run_d_pred [of 5 example_config "\<lambda>k. 1 / 2", simplified]
  by (simp add: chunks_d_example
        example_d_step_0 example_d_run_0
        example_d_step_1 example_d_run_1
        example_d_step_2 example_d_run_2
        example_d_step_3 example_d_run_3
        example_d_step_4 example_d_run_4)

subsection \<open>A night at age 50 in double precision\<close>

lemma age50_fields:
  "age age50_config = 50" "alcohol age50_config = 0" "chronotype age50_config = ''normal''"
  "\<not> socialJetLag age50_config" "\<not> blueLight age50_config" "\<not> isMenopausal age50_config"
  "gender age50_config = ''female''" "sdbSeverity age50_config = 0"
  "nocturia age50_config = 0" "caffeine age50_config = 0"
  by (simp_all add: age50_config_def example_config_def)







lemma startTimeOffset_d_age50: "startTimeOffset_d age50_config = 0"
  by (simp add: startTimeOffset_d_def agePhaseShift_d_def teenShift_d_def age50_fields
        fops fl_eval)

















lemma generate_d_example:
  "generate_d example_config (\<lambda>k. 1 / 2)
     = Some (finish_d example_config (adjusted_d example_config) (\<lambda>k. 1 / 2)
               (run_d example_config (\<lambda>k. 1 / 2) 5))"
proof (rule generate_d_unroll)
  fix j :: nat
  assume "j < 5"
  then have "j = 0 \<or> j = Suc 0 \<or> j = 2 \<or> j = 3 \<or> j = 4" by arith
  then show "accumulatedSleep (run_d example_config (\<lambda>k. 1 / 2) j) < tst (adjusted_d example_config)"
    by (elim disjE)
       (simp_all add: tst_adjusted_d_example example_d_run_0 example_d_run_1 example_d_run_2
          example_d_run_3 example_d_run_4)
next
  show "\<not> accumulatedSleep (run_d example_config (\<lambda>k. 1 / 2) 5) < tst (adjusted_d example_config)"
    by (simp add: tst_adjusted_d_example example_d_run_5)
qed

lemma actualTST_d_example:
  "actualTST_d (blocks (run_d example_config (\<lambda>k. 1 / 2) 5)) = 458"
  by (simp add: example_d_blocks actualTST_d_def fops fl_eval)

subsection \<open>Two nights that end above the target\<close>

lemma example_night:
  "\<exists>s. generate example_config (\<lambda>k. 9 / 10)
          = Some (finish example_config (adjusted example_config) (\<lambda>k. 9 / 10) s) \<and>
        example_inv 5 458 s"
proof -
  let ?step = "cycle_step example_config (adjusted example_config) (39 / 2) [5]"
  let ?loop = "cycle_loop example_config (adjusted example_config) (39 / 2) [5]"
  define s0 where "s0 = initial_state example_config"
  define s1 where "s1 = ?step s0"
  define s2 where "s2 = ?step s1"
  define s3 where "s3 = ?step s2"
  define s4 where "s4 = ?step s3"
  define s5 where "s5 = ?step s4"
  have i0: "example_inv 0 5 s0" unfolding s0_def by (rule example_inv_initial)
  have i1: "example_inv 1 97 s1"
    unfolding s1_def using example_inv_step[OF i0] by (simp add: transN1_def)
  have i2: "example_inv 2 189 s2"
    unfolding s2_def using example_inv_step[OF i1] by (simp add: transN1_def eval_nat_numeral)
  have i3: "example_inv 3 281 s3"
    unfolding s3_def using example_inv_step[OF i2] by (simp add: transN1_def eval_nat_numeral)
  have i4: "example_inv 4 373 s4"
    unfolding s4_def using example_inv_step[OF i3] by (simp add: transN1_def eval_nat_numeral)
  have i5: "example_inv 5 458 s5"
    unfolding s5_def using example_inv_step[OF i4] by (simp add: transN1_def eval_nat_numeral)
  have "?loop s0 = ?loop s1" unfolding s1_def by (rule example_loop_step[OF i0]) simp
  also have "\<dots> = ?loop s2" unfolding s2_def by (rule example_loop_step[OF i1]) simp
  also have "\<dots> = ?loop s3" unfolding s3_def by (rule example_loop_step[OF i2]) simp
  also have "\<dots> = ?loop s4" unfolding s4_def by (rule example_loop_step[OF i3]) simp
  also have "\<dots> = ?loop s5" unfolding s5_def by (rule example_loop_step[OF i4]) simp
  also have "\<dots> = Some s5" by (rule example_loop_stop[OF i5]) simp
  finally have run: "?loop (initial_state example_config) = Some s5" by (simp only: s0_def)
  have "generate example_config (\<lambda>k. 9 / 10)
          = Some (finish example_config (adjusted example_config) (\<lambda>k. 9 / 10) s5)"
    by (simp add: generate_def Let_def wakeInsertionIndices_example wakeChunkDuration_example run)
  with i5 show ?thesis by blast
qed

lemma initialN1_short: "initialN1 short_night_config = 60"
  by (simp add: initialN1_def)

lemma short_night:
  "generate short_night_config rnd
     = Some (finish short_night_config (adjusted short_night_config) rnd
               (initial_state short_night_config))"
proof -
  have "\<not> accumulatedSleep (initial_state short_night_config) < tst (adjusted short_night_config)"
    by (simp add: initial_state_def tst_adjusted_short initialN1_short)
  then have "cycle_loop short_night_config (adjusted short_night_config) w i
               (initial_state short_night_config) = Some (initial_state short_night_config)" for w i
    by (subst cycle_loop.simps) simp
  then show ?thesis by (simp add: generate_def Let_def)
qed

section \<open>The claims\<close>

text \<open>
  C1. For every Configuration with fields in the documented ranges and any random draws,
  \<open>generate\<close> returns a result in which the durations of all blocks sum to the time in
  bed (the final \<open>currentTime\<close>), the durations of the non-WAKE blocks sum to the
  actual total sleep (which equals the final \<open>accumulatedSleep\<close>), and the actual
  total sleep is at most the time in bed.
\<close>

theorem generate_accounting:
  assumes "valid_config c"
  shows "\<exists>s r. cycle_loop c (adjusted c) (wakeChunkDuration (adjusted c))
                 (wakeInsertionIndices (adjusted c) rnd) (initial_state c) = Some s \<and>
               generate c rnd = Some r \<and>
               st_tib (res_stats r) = currentTime s \<and>
               st_tst (res_stats r) = accumulatedSleep s \<and>
               sum_list (map duration (res_blocks r)) = st_tib (res_stats r) \<and>
               sum_list (map duration (filter (\<lambda>b. stage b \<noteq> WAKE) (res_blocks r)))
                 = st_tst (res_stats r) \<and>
               st_tst (res_stats r) \<le> st_tib (res_stats r)"
proof -
  from generate_run[OF assms, of rnd] obtain s where
    s: "cycle_loop c (adjusted c) (wakeChunkDuration (adjusted c))
          (wakeInsertionIndices (adjusted c) rnd) (initial_state c) = Some s"
       "generate c rnd = Some (finish c (adjusted c) rnd s)" "run_inv c s"
    by blast
  from s(3) have wf: "sum_list (map duration (blocks s)) = currentTime s"
      "actualTST (blocks s) = accumulatedSleep s"
    by (simp_all add: run_inv_def wf_state_def)
  from run_inv_times[OF assms s(3)] have le: "accumulatedSleep s \<le> currentTime s" by simp
  have "sum_list (map duration (filter (\<lambda>b. stage b \<noteq> WAKE) (blocks s))) = accumulatedSleep s"
    using wf(2) by (simp add: actualTST_sum)
  with s(1,2) wf le show ?thesis
    by (intro exI[of _ s] exI[of _ "finish c (adjusted c) rnd s"])
       (simp add: shifted_durations shifted_sleep del: map_map)
qed

text \<open>The theorem at the example configuration, every draw being 0.9.\<close>

theorem generate_accounting_witness:
  "valid_config example_config \<and>
   (\<exists>s r. cycle_loop example_config (adjusted example_config)
             (wakeChunkDuration (adjusted example_config))
             (wakeInsertionIndices (adjusted example_config) (\<lambda>k. 9 / 10))
             (initial_state example_config) = Some s \<and>
          generate example_config (\<lambda>k. 9 / 10) = Some r \<and>
          st_tib (res_stats r) = currentTime s \<and>
          st_tst (res_stats r) = accumulatedSleep s \<and>
          sum_list (map duration (res_blocks r)) = st_tib (res_stats r) \<and>
          sum_list (map duration (filter (\<lambda>b. stage b \<noteq> WAKE) (res_blocks r)))
            = st_tst (res_stats r) \<and>
          st_tst (res_stats r) \<le> st_tib (res_stats r))"
proof -
  have v: "valid_config example_config"
    by (simp add: valid_config_def example_config_def)
  from v generate_accounting[OF v, of "\<lambda>k. 9 / 10"] show ?thesis by (rule conjI)
qed




text \<open>
  C3. For every Configuration in the documented ranges, when the cycle loop has ended the
  actual total sleep is at least the modifier-adjusted total-sleep target and exceeds it
  by less than a full 90-minute cycle. The excess is not a rounding error. It is what the
  last cycle adds beyond its budget \<open>min 90 (tst - accumulatedSleep)\<close>: the post-REM N1
  transition, and the share of a non-positive local N3 fraction, whose block is skipped;
  or, when no cycle runs, the part of the initial N1 block above the target.
\<close>

theorem generate_reaches_target:
  assumes "valid_config c"
  shows "\<exists>r. generate c rnd = Some r \<and>
             tst (adjusted c) \<le> st_tst (res_stats r) \<and>
             st_tst (res_stats r) < tst (adjusted c) + 90"
proof -
  from generate_run[OF assms, of rnd] obtain s where
    s: "generate c rnd = Some (finish c (adjusted c) rnd s)" "run_inv c s"
       "tst (adjusted c) \<le> accumulatedSleep s"
    by blast
  from s(2) have "actualTST (blocks s) = accumulatedSleep s" "accumulatedSleep s < tst (adjusted c) + 90"
    by (simp_all add: run_inv_def wf_state_def sleep_inv_def)
  with s(1,3) show ?thesis by simp
qed

text \<open>The theorem at the example configuration, every draw being 0.25.\<close>

theorem generate_reaches_target_witness:
  "valid_config example_config \<and>
   (\<exists>r. generate example_config (\<lambda>k. 1 / 4) = Some r \<and>
        tst (adjusted example_config) \<le> st_tst (res_stats r) \<and>
        st_tst (res_stats r) < tst (adjusted example_config) + 90)"
proof -
  have v: "valid_config example_config"
    by (simp add: valid_config_def example_config_def)
  from v generate_reaches_target[OF v, of "\<lambda>k. 1 / 4"] show ?thesis by (rule conjI)
qed

text \<open>
  Nights whose actual total sleep exceeds the target by whole minutes. At the example
  configuration the target is 456 minutes and the loop ends with 458, in exact arithmetic
  (first draw 0.9) and in double precision (draws 0.5) alike: the fifth cycle is a full
  cycle and appends its post-REM N1 block of 2 minutes. At the short-night configuration
  the target is 0, no cycle runs, and the actual total sleep is the initial N1 block of 60
  minutes.
\<close>

theorem target_overshoot:
  "valid_config example_config \<and> valid_config short_night_config \<and>
   (\<exists>r. generate example_config (\<lambda>k. 9 / 10) = Some r \<and>
        tst (adjusted example_config) = 456 \<and> st_tst (res_stats r) = 458) \<and>
   (\<exists>r. generate short_night_config (\<lambda>k. 0) = Some r \<and> length (res_blocks r) = 2 \<and>
        tst (adjusted short_night_config) = 0 \<and> st_tst (res_stats r) = 60) \<and>
   (\<exists>r. generate_d example_config (\<lambda>k. 1 / 2) = Some r \<and>
        tst (adjusted_d example_config) = 456 \<and> st_tst (res_stats r) = 458)"
proof -
  have v: "valid_config example_config" "valid_config short_night_config"
    by (simp_all add: valid_config_def example_config_def short_night_config_def)
  from example_night obtain s where
    s: "generate example_config (\<lambda>k. 9 / 10)
          = Some (finish example_config (adjusted example_config) (\<lambda>k. 9 / 10) s)"
       "example_inv 5 458 s"
    by blast
  from s(2)
  have "st_tst (res_stats (finish example_config (adjusted example_config) (\<lambda>k. 9 / 10) s)) = 458"
    by (simp add: example_inv_def wf_state_def)
  with s(1) have a: "\<exists>r. generate example_config (\<lambda>k. 9 / 10) = Some r \<and>
        tst (adjusted example_config) = 456 \<and> st_tst (res_stats r) = 458"
    by (simp add: adjusted_example)
  have b: "\<exists>r. generate short_night_config (\<lambda>k. 0) = Some r \<and> length (res_blocks r) = 2 \<and>
        tst (adjusted short_night_config) = 0 \<and> st_tst (res_stats r) = 60"
    by (simp add: short_night tst_adjusted_short initial_state_def actualTST_sum initialN1_short)
  have c: "\<exists>r. generate_d example_config (\<lambda>k. 1 / 2) = Some r \<and>
        tst (adjusted_d example_config) = 456 \<and> st_tst (res_stats r) = 458"
    by (simp add: generate_d_example tst_adjusted_d_example actualTST_d_example)
  from v a b c show ?thesis by (intro conjI)
qed

text \<open>
  C4. For every age (in particular every age in [0,100]) the profile resolver
  \<open>getAgeProfile\<close> returns four stage fractions n3P, remP, n1P, n2P that are each at
  least 0 and sum to 1, with N2 the remainder \<open>1 - (n3P + remP + n1P)\<close>; and whenever
  the remainder would be negative, the renormalisation branch yields a strictly positive N2
  and fractions that again sum to 1.
\<close>

theorem getAgeProfile_fractions:
  "0 \<le> n3P (getAgeProfile a) \<and> 0 \<le> remP (getAgeProfile a) \<and> 0 \<le> n1P (getAgeProfile a) \<and>
   0 \<le> n2P (getAgeProfile a) \<and>
   n3P (getAgeProfile a) + remP (getAgeProfile a) + n1P (getAgeProfile a) + n2P (getAgeProfile a) = 1 \<and>
   n2P (getAgeProfile a) = 1 - (n3P (getAgeProfile a) + remP (getAgeProfile a) + n1P (getAgeProfile a)) \<and>
   (1 - (n3 + rem + n1) < 0 \<longrightarrow>
      (case safety_normalization n3 rem n1 of
         (n3', rem', n1', n2') \<Rightarrow> 0 < n2' \<and> n3' + rem' + n1' + n2' = 1))"
proof -
  have age: "0 \<le> n3P (getAgeProfile a) \<and> 0 \<le> remP (getAgeProfile a) \<and> 0 \<le> n1P (getAgeProfile a) \<and>
     0 \<le> n2P (getAgeProfile a) \<and>
     n3P (getAgeProfile a) + remP (getAgeProfile a) + n1P (getAgeProfile a) + n2P (getAgeProfile a) = 1 \<and>
     n2P (getAgeProfile a) = 1 - (n3P (getAgeProfile a) + remP (getAgeProfile a) + n1P (getAgeProfile a))"
    using interpolate_n3_bounds[of a] interpolate_rem_bounds[of a] interpolate_n1_bounds[of a]
    by (simp add: getAgeProfile_def safety_normalization_def Let_def)
  have "case safety_normalization n3 rem n1 of
         (n3', rem', n1', n2') \<Rightarrow> 0 < n2' \<and> n3' + rem' + n1' + n2' = 1"
    if neg: "1 - (n3 + rem + n1) < 0"
  proof -
    from neg have "n3 + rem + n1 \<noteq> 0" by simp
    from rescale_sum[OF this, of "0.95"] show ?thesis
      unfolding safety_normalization_branch[OF neg] by simp
  qed
  with age show ?thesis by blast
qed

text \<open>The renormalisation branch at fractions one half each, and the profile at age 40.\<close>

theorem getAgeProfile_fractions_witness:
  "1 - (1/2 + 1/2 + 1/2) < (0::real) \<and>
   (case safety_normalization (1/2) (1/2) (1/2) of
      (n3', rem', n1', n2') \<Rightarrow> 0 < n2' \<and> n3' + rem' + n1' + n2' = 1) \<and>
   n2P (getAgeProfile 40) = 1 - (n3P (getAgeProfile 40) + remP (getAgeProfile 40) + n1P (getAgeProfile 40))"
proof -
  have h: "1 - (1/2 + 1/2 + 1/2) < (0::real)" by simp
  from getAgeProfile_fractions[of 40 "1/2" "1/2" "1/2"] h show ?thesis
    by (elim conjE impE) (assumption, intro conjI, assumption+)
qed

text \<open>
  C5, the code at an input where the claim fails. The claim is that the WAKE blocks
  emitted by the cycle loop sum to the adjusted WASO target, every chunk being inserted.
  At the example configuration (age 29, every modifier off) the target is 19.5 minutes in
  one chunk, and the estimated cycle count is \<open>\<lceil>456 / 90\<rceil> = 6\<close>. With first draw
  0.9 the chunk is scheduled for cycle index \<open>\<lfloor>0.9 * 6\<rfloor> = 5\<close>, but the loop ends after the
  cycles 0 to 4, with 458 minutes of sleep against a target of 456. The chunk is never
  inserted: the latency block is the only WAKE block of the result, the time in bed is the
  total sleep plus the latency, and the stats still report 19.5 minutes of WASO.
\<close>

theorem waso_chunk_dropped:
  "\<exists>r. generate example_config (\<lambda>k. 9 / 10) = Some r \<and>
        st_wasoMins (res_stats r) = 39 / 2 \<and>
        filter (\<lambda>b. stage b = WAKE) (res_blocks r)
          = [\<lparr>stage = WAKE, duration = 49 / 4, start = 240\<rparr>] \<and>
        st_latency (res_stats r) = 49 / 4 \<and>
        st_tst (res_stats r) = 458 \<and>
        st_tib (res_stats r) = 458 + 49 / 4"
proof -
  let ?step = "cycle_step example_config (adjusted example_config) (39 / 2) [5]"
  let ?loop = "cycle_loop example_config (adjusted example_config) (39 / 2) [5]"
  define s0 where "s0 = initial_state example_config"
  define s1 where "s1 = ?step s0"
  define s2 where "s2 = ?step s1"
  define s3 where "s3 = ?step s2"
  define s4 where "s4 = ?step s3"
  define s5 where "s5 = ?step s4"
  have i0: "example_inv 0 5 s0" unfolding s0_def by (rule example_inv_initial)
  have i1: "example_inv 1 97 s1"
    unfolding s1_def using example_inv_step[OF i0] by (simp add: transN1_def)
  have i2: "example_inv 2 189 s2"
    unfolding s2_def using example_inv_step[OF i1] by (simp add: transN1_def eval_nat_numeral)
  have i3: "example_inv 3 281 s3"
    unfolding s3_def using example_inv_step[OF i2] by (simp add: transN1_def eval_nat_numeral)
  have i4: "example_inv 4 373 s4"
    unfolding s4_def using example_inv_step[OF i3] by (simp add: transN1_def eval_nat_numeral)
  have i5: "example_inv 5 458 s5"
    unfolding s5_def using example_inv_step[OF i4] by (simp add: transN1_def eval_nat_numeral)
  have "?loop s0 = ?loop s1" unfolding s1_def by (rule example_loop_step[OF i0]) simp
  also have "\<dots> = ?loop s2" unfolding s2_def by (rule example_loop_step[OF i1]) simp
  also have "\<dots> = ?loop s3" unfolding s3_def by (rule example_loop_step[OF i2]) simp
  also have "\<dots> = ?loop s4" unfolding s4_def by (rule example_loop_step[OF i3]) simp
  also have "\<dots> = ?loop s5" unfolding s5_def by (rule example_loop_step[OF i4]) simp
  also have "\<dots> = Some s5" by (rule example_loop_stop[OF i5]) simp
  finally have run: "?loop (initial_state example_config) = Some s5" by (simp only: s0_def)
  let ?r = "finish example_config (adjusted example_config) (\<lambda>k. 9 / 10) s5"
  have g: "generate example_config (\<lambda>k. 9 / 10) = Some ?r"
    by (simp add: generate_def Let_def wakeInsertionIndices_example wakeChunkDuration_example run)
  from i5 have f: "accumulatedSleep s5 = 458" "wakeChunkIndex s5 = 0"
      "filter (\<lambda>b. stage b = WAKE) (blocks s5) = [\<lparr>stage = WAKE, duration = 49 / 4, start = 0\<rparr>]"
      "wf_state s5" "time_inv (49 / 4) (39 / 2) s5"
    by (simp_all add: example_inv_def)
  have tst: "st_tst (res_stats ?r) = 458"
    using f(1,4) by (simp add: wf_state_def)
  have tib: "st_tib (res_stats ?r) = 458 + 49 / 4"
    using f(1,2,5) by (simp add: time_inv_def)
  have wk: "filter (\<lambda>b. stage b = WAKE) (res_blocks ?r)
              = [\<lparr>stage = WAKE, duration = 49 / 4, start = 240\<rparr>]"
    by (simp add: wake_blocks_shifted f(3) startTimeOffset_example)
  have "st_wasoMins (res_stats ?r) = 39 / 2" by (simp add: adjusted_example)
  moreover have "st_latency (res_stats ?r) = 49 / 4" by (simp add: latency_example)
  ultimately show ?thesis using g tst tib wk by blast
qed

text \<open>
  C6. Holding every other field of a Configuration in the documented ranges fixed, for
  any two severities \<open>0 \<le> s1 < s2 \<le> 10\<close> (and any random draws) the N3 fraction in
  the stats returned at severity \<open>s2\<close> is strictly smaller than at \<open>s1\<close>, and the WASO
  minutes in the stats are strictly larger. The N3 fraction is the one after the rescale
  to the 0.95 ceiling.
\<close>

theorem sdb_severity_monotone:
  assumes "valid_config c" "0 \<le> s1" "s1 < s2" "s2 \<le> 10"
  shows "\<exists>r1 r2. generate (c\<lparr>sdbSeverity := s1\<rparr>) rnd1 = Some r1 \<and>
                  generate (c\<lparr>sdbSeverity := s2\<rparr>) rnd2 = Some r2 \<and>
                  st_n3P (res_stats r2) < st_n3P (res_stats r1) \<and>
                  st_wasoMins (res_stats r1) < st_wasoMins (res_stats r2)"
proof -
  have s: "s1 \<le> 10" "0 \<le> s2" using assms(2-4) by simp_all
  from generate_run[OF valid_config_sdb[OF assms(1,2) s(1)], of rnd1] obtain t1 where
    t1: "generate (c\<lparr>sdbSeverity := s1\<rparr>) rnd1
           = Some (finish (c\<lparr>sdbSeverity := s1\<rparr>) (adjusted (c\<lparr>sdbSeverity := s1\<rparr>)) rnd1 t1)"
    by blast
  from generate_run[OF valid_config_sdb[OF assms(1) s(2) assms(4)], of rnd2] obtain t2 where
    t2: "generate (c\<lparr>sdbSeverity := s2\<rparr>) rnd2
           = Some (finish (c\<lparr>sdbSeverity := s2\<rparr>) (adjusted (c\<lparr>sdbSeverity := s2\<rparr>)) rnd2 t2)"
    by blast
  have w: "wasoMins (adjusted (c\<lparr>sdbSeverity := s1\<rparr>)) < wasoMins (adjusted (c\<lparr>sdbSeverity := s2\<rparr>))"
    using assms(3) by (simp add: wasoMins_adjusted_sdb[OF assms(2)] wasoMins_adjusted_sdb[OF s(2)])
  from t1 t2 w sdb_n3P_decreases[OF assms] show ?thesis by simp
qed

text \<open>
  The theorem at the example configuration and the severities 0 and 10.
\<close>

theorem sdb_severity_monotone_witness:
  "valid_config example_config \<and> (0::real) \<le> 0 \<and> (0::real) < 10 \<and> (10::real) \<le> 10 \<and>
   (\<exists>r1 r2. generate (example_config\<lparr>sdbSeverity := 0\<rparr>) (\<lambda>k. 1 / 2) = Some r1 \<and>
             generate (example_config\<lparr>sdbSeverity := 10\<rparr>) (\<lambda>k. 1 / 2) = Some r2 \<and>
             st_n3P (res_stats r2) < st_n3P (res_stats r1) \<and>
             st_wasoMins (res_stats r1) < st_wasoMins (res_stats r2))"
proof -
  have v: "valid_config example_config"
    by (simp add: valid_config_def example_config_def)
  have h: "(0::real) \<le> 0" "(0::real) < 10" "(10::real) \<le> 10" by simp_all
  from sdb_severity_monotone[OF v h, of "\<lambda>k. 1 / 2" "\<lambda>k. 1 / 2"] v h show ?thesis
    by (intro conjI)
qed

text \<open>
  C7. For every Configuration in the documented ranges the time in bed is positive, and
  the sleep efficiency, 100 times actual total sleep over time in bed, lies in the
  half-open interval (0, 100].
\<close>

theorem generate_sleep_efficiency:
  assumes "valid_config c"
  shows "\<exists>r. generate c rnd = Some r \<and> 0 < st_tib (res_stats r) \<and>
             st_sleepEfficiency (res_stats r) = (st_tst (res_stats r) / st_tib (res_stats r)) * 100 \<and>
             0 < st_sleepEfficiency (res_stats r) \<and> st_sleepEfficiency (res_stats r) \<le> 100"
proof -
  from generate_run[OF assms, of rnd] obtain s where
    s: "generate c rnd = Some (finish c (adjusted c) rnd s)" "run_inv c s"
    by blast
  from s(2) have a: "actualTST (blocks s) = accumulatedSleep s"
    by (simp add: run_inv_def wf_state_def)
  note t = run_inv_times[OF assms s(2)]
  define q where "q = accumulatedSleep s / currentTime s"
  have "0 < q" "q \<le> 1" using t by (simp_all add: q_def divide_le_eq)
  then have "0 < q * 100" "q * 100 \<le> 100" by simp_all
  then have "0 < (accumulatedSleep s / currentTime s) * 100"
      "(accumulatedSleep s / currentTime s) * 100 \<le> 100"
    unfolding q_def .
  moreover have "st_sleepEfficiency (res_stats (finish c (adjusted c) rnd s))
                   = (accumulatedSleep s / currentTime s) * 100"
    by (simp add: a)
  moreover have "st_tst (res_stats (finish c (adjusted c) rnd s)) = accumulatedSleep s"
      "st_tib (res_stats (finish c (adjusted c) rnd s)) = currentTime s"
    by (simp_all add: a)
  ultimately show ?thesis using s(1) t(3)
    by (intro exI[of _ "finish c (adjusted c) rnd s"]) (simp only: simp_thms)
qed

text \<open>The theorem at the example configuration, every draw being 0.75.\<close>

theorem generate_sleep_efficiency_witness:
  "valid_config example_config \<and>
   (\<exists>r. generate example_config (\<lambda>k. 3 / 4) = Some r \<and> 0 < st_tib (res_stats r) \<and>
        st_sleepEfficiency (res_stats r) = (st_tst (res_stats r) / st_tib (res_stats r)) * 100 \<and>
        0 < st_sleepEfficiency (res_stats r) \<and> st_sleepEfficiency (res_stats r) \<le> 100)"
proof -
  have v: "valid_config example_config"
    by (simp add: valid_config_def example_config_def)
  from v generate_sleep_efficiency[OF v, of "\<lambda>k. 3 / 4"] show ?thesis by (rule conjI)
qed




text \<open>
  C9. The micro-arousal overlay is a pure frame effect: for every Configuration in the
  documented ranges, two runs whose random draws agree on the draws made for the chunk
  indices (the first \<open>numWakeChunks\<close> ones) and differ arbitrarily on the draws that
  place the wake events return the same blocks, the same params (with actual total sleep
  and time in bed) and the same stats; the two results differ in \<open>wakeEvents\<close> only.
\<close>

theorem micro_arousals_frame:
  assumes "valid_config c" "\<forall>k<numWakeChunks (adjusted c). rnd1 k = rnd2 k"
  shows "\<exists>r1 r2. generate c rnd1 = Some r1 \<and> generate c rnd2 = Some r2 \<and>
           res_blocks r1 = res_blocks r2 \<and> res_params r1 = res_params r2 \<and>
           res_stats r1 = res_stats r2 \<and>
           r2 = r1\<lparr>res_wakeEvents := res_wakeEvents r2\<rparr>"
proof -
  from generate_run[OF assms(1), of rnd1] obtain s where
    s: "cycle_loop c (adjusted c) (wakeChunkDuration (adjusted c))
          (wakeInsertionIndices (adjusted c) rnd1) (initial_state c) = Some s"
       "generate c rnd1 = Some (finish c (adjusted c) rnd1 s)"
    by blast
  have "generate c rnd2 = Some (finish c (adjusted c) rnd2 s)"
    using s(1) by (simp add: generate_def Let_def wakeInsertionIndices_cong[OF assms(2), symmetric])
  with s(2) show ?thesis
    by (intro exI[of _ "finish c (adjusted c) rnd1 s"] exI[of _ "finish c (adjusted c) rnd2 s"])
       (simp add: finish_def Let_def)
qed

text \<open>
  The theorem at the example configuration (one chunk), with draws that agree on the
  first call and differ afterwards.
\<close>

theorem micro_arousals_frame_witness:
  "valid_config example_config \<and> numWakeChunks (adjusted example_config) = 1 \<and>
   (\<exists>r1 r2. generate example_config (\<lambda>k. if k = 0 then 9 / 10 else 1 / 4) = Some r1 \<and>
      generate example_config (\<lambda>k. if k = 0 then 9 / 10 else 3 / 4) = Some r2 \<and>
      res_blocks r1 = res_blocks r2 \<and> res_params r1 = res_params r2 \<and>
      res_stats r1 = res_stats r2 \<and>
      r2 = r1\<lparr>res_wakeEvents := res_wakeEvents r2\<rparr>)"
proof -
  have v: "valid_config example_config"
    by (simp add: valid_config_def example_config_def)
  have h: "\<forall>k<numWakeChunks (adjusted example_config).
      (if k = 0 then 9 / 10 else 1 / 4) = (if k = 0 then 9 / 10 else (3 / 4 :: real))"
    by (simp add: numWakeChunks_example)
  from micro_arousals_frame[OF v h] v numWakeChunks_example show ?thesis by (intro conjI)
qed

text \<open>
  C10. When the modifier-adjusted total-sleep target is at most the initial N1 duration,
  the body of the cycle loop runs zero times: the loop returns the initial state, and
  \<open>generate\<close> returns exactly two blocks, the latency WAKE block and the initial N1 block,
  with no WASO chunk, whatever the adjusted WASO target reported in the stats.
\<close>

theorem short_target_no_cycles:
  assumes "tst (adjusted c) \<le> initialN1 c"
  shows "cycle_loop c (adjusted c) wcd idxs (initial_state c) = Some (initial_state c) \<and>
         (\<exists>r. generate c rnd = Some r \<and>
            res_blocks r =
              [\<lparr>stage = WAKE, duration = latency c, start = 0 + 240 + startTimeOffset c\<rparr>,
               \<lparr>stage = N1, duration = initialN1 c, start = latency c + 240 + startTimeOffset c\<rparr>] \<and>
            st_wasoMins (res_stats r) = wasoMins (adjusted c) \<and>
            st_tst (res_stats r) = initialN1 c \<and>
            st_tib (res_stats r) = latency c + initialN1 c)"
proof -
  have stop: "\<not> accumulatedSleep (initial_state c) < tst (adjusted c)"
    using assms by (simp add: initial_state_def)
  have run: "cycle_loop c (adjusted c) w i (initial_state c) = Some (initial_state c)" for w i
    using stop by (subst cycle_loop.simps) simp
  have "generate c rnd = Some (finish c (adjusted c) rnd (initial_state c))"
    by (simp add: generate_def Let_def run)
  moreover have "res_blocks (finish c (adjusted c) rnd (initial_state c)) =
              [\<lparr>stage = WAKE, duration = latency c, start = 0 + 240 + startTimeOffset c\<rparr>,
               \<lparr>stage = N1, duration = initialN1 c, start = latency c + 240 + startTimeOffset c\<rparr>]"
    by (simp add: initial_state_def)
  moreover have "st_tst (res_stats (finish c (adjusted c) rnd (initial_state c))) = initialN1 c"
      "st_tib (res_stats (finish c (adjusted c) rnd (initial_state c))) = latency c + initialN1 c"
    by (simp_all add: initial_state_def actualTST_sum)
  ultimately show ?thesis using run by simp
qed

text \<open>
  The theorem at a configuration in the documented ranges (age 95, ten cups of caffeine
  at bedtime, severity 10, blue light and social jet lag): the target is 0, the initial N1
  lasts 60 minutes, and the adjusted WASO target is 410 minutes.
\<close>

theorem short_target_no_cycles_witness:
  "tst (adjusted short_night_config) \<le> initialN1 short_night_config \<and>
   0 < wasoMins (adjusted short_night_config) \<and>
   cycle_loop short_night_config (adjusted short_night_config) 410 [0]
     (initial_state short_night_config) = Some (initial_state short_night_config) \<and>
   (\<exists>r. generate short_night_config (\<lambda>k. 0) = Some r \<and>
      res_blocks r =
        [\<lparr>stage = WAKE, duration = latency short_night_config,
          start = 0 + 240 + startTimeOffset short_night_config\<rparr>,
         \<lparr>stage = N1, duration = initialN1 short_night_config,
          start = latency short_night_config + 240 + startTimeOffset short_night_config\<rparr>] \<and>
      st_wasoMins (res_stats r) = wasoMins (adjusted short_night_config) \<and>
      st_tst (res_stats r) = initialN1 short_night_config \<and>
      st_tib (res_stats r) = latency short_night_config + initialN1 short_night_config)"
proof -
  have h: "tst (adjusted short_night_config) \<le> initialN1 short_night_config"
    by (simp add: tst_adjusted_short initialN1_def)
  have w: "0 < wasoMins (adjusted short_night_config)"
    by (simp add: wasoMins_adjusted_short)
  from short_target_no_cycles[OF h, of 410 "[0]" "\<lambda>k. 0"] h w show ?thesis
    by (elim conjE) (intro conjI, assumption+)
qed

end
